theory Spec2Isabelle
  imports Main "HOL-Library.Word"
begin

unbundle bit_operations_syntax

section \<open>Data model of \<^verbatim>\<open>src/mesh/NodeDB.cpp\<close>\<close>

text \<open>
  The file is a shallow embedding of \<^verbatim>\<open>NodeDB.cpp\<close>. The protobuf structs are records
  with the fields the source names; \<^verbatim>\<open>uint8_t\<close> and \<^verbatim>\<open>uint32_t\<close> are 8 and 32 bit
  words. A \<^verbatim>\<open>char\<close> array that holds a C string is a \<open>string\<close>: the characters before
  the terminating NUL. For the \<^verbatim>\<open>User\<close> record, which the source compares with
  \<^verbatim>\<open>memcmp\<close>, a string field stands for all the bytes of its array up to the last
  non-zero one (the source fills the arrays with zeros first) and \<open>macaddr\<close> for its 6
  bytes, so that two records are equal exactly when \<^verbatim>\<open>memcmp\<close> returns 0.
\<close>

type_synonym u8 = "8 word"
type_synonym u32 = "32 word"
type_synonym NodeNum = u32

record Position =
  latitude_i :: u32
  longitude_i :: u32
  time :: u32

record User =
  user_id :: string
  long_name :: string
  short_name :: string
  macaddr :: "u8 list"

text \<open>\<^verbatim>\<open>snr\<close> is a float that the source only copies: its 32 bits are kept as they are.\<close>

record NodeInfo =
  num :: NodeNum
  has_user :: bool
  user :: User
  has_position :: bool
  position :: Position
  snr :: u32

datatype RegionCode = RegionCode_Unset | RegionCode_TW | RegionCode_Other nat

datatype ModemConfig =
    ChannelSettings_ModemConfig_Bw125Cr45Sf128
  | ChannelSettings_ModemConfig_Bw500Cr45Sf128
  | ChannelSettings_ModemConfig_Bw31_25Cr48Sf512
  | ChannelSettings_ModemConfig_Bw125Cr48Sf4096
  | ChannelSettings_ModemConfig_Other nat

record UserPreferences =
  position_broadcast_secs :: u32
  wait_bluetooth_secs :: u32
  screen_on_secs :: u32
  ls_secs :: u32
  region :: RegionCode
  factory_reset :: bool

text \<open>
  \<^verbatim>\<open>psk\<close> is a nanopb bytes field (\<^verbatim>\<open>size\<close> and \<^verbatim>\<open>bytes\<close>). The source reads
  \<^verbatim>\<open>bytes\<close> only below \<^verbatim>\<open>size\<close>, so the field is the list of its first \<^verbatim>\<open>size\<close>
  bytes and \<^verbatim>\<open>psk.size\<close> is the length of the list.
\<close>

record ChannelSettings =
  tx_power :: u32
  modem_config :: ModemConfig
  psk :: "u8 list"
  name :: string
  bandwidth :: u32

record RadioConfig =
  has_preferences :: bool
  preferences :: UserPreferences
  has_channel_settings :: bool
  channel_settings :: ChannelSettings

text \<open>The string field \<^verbatim>\<open>region\<close> of \<^verbatim>\<open>MyNodeInfo\<close> is \<open>node_region\<close> here (the
  preferences have a field of the same name).\<close>

record MyNodeInfo =
  my_node_num :: NodeNum
  has_gps :: bool
  node_region :: string
  message_timeout_msec :: u32
  current_packet_id :: u32

text \<open>
  \<^verbatim>\<open>node_db\<close> with \<^verbatim>\<open>node_db_count\<close>: the source reads the array only below the count
  and zeroes a slot when the count grows over it, so the table is the list of its first
  \<^verbatim>\<open>node_db_count\<close> records and \<^verbatim>\<open>*numNodes\<close> is the length of the list.
\<close>

record DeviceState =
  has_radio :: bool
  radio :: RadioConfig
  has_my_node :: bool
  my_node :: MyNodeInfo
  has_owner :: bool
  owner :: User
  node_db :: "NodeInfo list"
  receive_queue_count :: nat
  version :: u32
  no_save :: bool

datatype SubPacket =
    SubPacket_position Position
  | SubPacket_data "u8 list"
  | SubPacket_user User
  | SubPacket_other

datatype Payload = MeshPacket_decoded SubPacket | MeshPacket_encrypted "u8 list"

record MeshPacket =
  mp_from :: NodeNum
  mp_to :: NodeNum
  payload :: Payload
  rx_time :: u32
  rx_snr :: u32

text \<open>The calls that leave this file, in the order they are made.\<close>

datatype Effect =
    NotifyObservers bool
  | PowerFSM_trigger_EVENT_NODEDB_UPDATED
  | CallPlugins MeshPacket
  | CryptoSetKey "u8 list"
  | InitRegion

text \<open>
  The globals of the file. \<open>updateGUIforNode\<close> points into the table: it is the index of
  the record. \<open>activePSK\<close> is the first \<^verbatim>\<open>activePSKSize\<close> bytes of the buffer of that
  name. \<open>files\<close> is the filesystem behind \<^verbatim>\<open>FS\<close>, \<open>rand_pos\<close> counts the draws made
  from \<^verbatim>\<open>random\<close>.
\<close>

record NodeDB =
  devicestate :: DeviceState
  radioGeneration :: u32
  ourMacAddr :: "u8 list"
  channelName :: string
  activePSK :: "u8 list"
  updateGUIforNode :: "nat option"
  effects :: "Effect list"
  files :: "string \<rightharpoonup> u8 list"
  rand_pos :: nat

text \<open>
  What the file takes from headers and collaborators that are not part of the sources:
  the build constants, the hardware address (6 bytes), the packet id that \<^verbatim>\<open>generatePacketId\<close>
  leaves in \<^verbatim>\<open>current_packet_id\<close>, the raw draws of the random generator, the nanopb
  codec (its success flag, and the record or the bytes it produced up to there), and
  whether the temporary file can be opened for writing.
\<close>

record Platform =
  MAX_NUM_NODES :: nat
  NODENUM_BROADCAST :: NodeNum
  FLOOD_EXPIRE_TIME :: u32
  getMacAddr :: "u8 list"
  generatePacketId :: u32
  random_raw :: "nat \<Rightarrow> nat"
  pb_decode :: "u8 list \<Rightarrow> bool \<times> DeviceState"
  pb_encode :: "DeviceState \<Rightarrow> bool \<times> u8 list"
  open_write_ok :: bool

datatype error = AssertionFailed

definition DEVICESTATE_CUR_VER :: u32 where
  "DEVICESTATE_CUR_VER = 11"

definition DEVICESTATE_MIN_VER :: u32 where
  "DEVICESTATE_MIN_VER = DEVICESTATE_CUR_VER"

definition NUM_RESERVED :: NodeNum where
  "NUM_RESERVED = 4"

definition NUM_ONLINE_SECS :: u32 where
  "NUM_ONLINE_SECS = 60 * 2"

subsection \<open>\<^verbatim>\<open>memset(..., 0, ...)\<close>\<close>

definition zero_Position :: Position where
  "zero_Position = \<lparr>latitude_i = 0, longitude_i = 0, time = 0\<rparr>"

definition zero_User :: User where
  "zero_User = \<lparr>user_id = [], long_name = [], short_name = [], macaddr = [0, 0, 0, 0, 0, 0]\<rparr>"

definition zero_NodeInfo :: NodeInfo where
  "zero_NodeInfo = \<lparr>num = 0, has_user = False, user = zero_User, has_position = False,
     position = zero_Position, snr = 0\<rparr>"

definition zero_UserPreferences :: UserPreferences where
  "zero_UserPreferences = \<lparr>position_broadcast_secs = 0, wait_bluetooth_secs = 0,
     screen_on_secs = 0, ls_secs = 0, region = RegionCode_Unset, factory_reset = False\<rparr>"

definition zero_ChannelSettings :: ChannelSettings where
  "zero_ChannelSettings = \<lparr>tx_power = 0,
     modem_config = ChannelSettings_ModemConfig_Bw125Cr45Sf128, psk = [], name = [],
     bandwidth = 0\<rparr>"

definition zero_RadioConfig :: RadioConfig where
  "zero_RadioConfig = \<lparr>has_preferences = False, preferences = zero_UserPreferences,
     has_channel_settings = False, channel_settings = zero_ChannelSettings\<rparr>"

definition zero_MyNodeInfo :: MyNodeInfo where
  "zero_MyNodeInfo = \<lparr>my_node_num = 0, has_gps = False, node_region = [],
     message_timeout_msec = 0, current_packet_id = 0\<rparr>"

definition zero_DeviceState :: DeviceState where
  "zero_DeviceState = \<lparr>has_radio = False, radio = zero_RadioConfig, has_my_node = False,
     my_node = zero_MyNodeInfo, has_owner = False, owner = zero_User, node_db = [],
     receive_queue_count = 0, version = 0, no_save = False\<rparr>"

section \<open>The peer table\<close>

subsection \<open>\<^verbatim>\<open>NodeDB::getNode\<close>\<close>

text \<open>The loop over \<^verbatim>\<open>nodes[i]\<close>, \<^verbatim>\<open>i < *numNodes\<close>: the index of the first record with
  the number, \<open>None\<close> for \<^verbatim>\<open>NULL\<close>.\<close>

fun getNodeIdx :: "NodeInfo list \<Rightarrow> NodeNum \<Rightarrow> nat option" where
  "getNodeIdx [] n = None"
| "getNodeIdx (x # xs) n = (if num x = n then Some 0 else map_option Suc (getNodeIdx xs n))"

definition getNode :: "NodeDB \<Rightarrow> NodeNum \<Rightarrow> nat option" where
  "getNode s n = getNodeIdx (node_db (devicestate s)) n"

definition numNodes :: "NodeDB \<Rightarrow> nat" where
  "numNodes s = length (node_db (devicestate s))"

subsection \<open>\<^verbatim>\<open>NodeDB::getOrCreateNode\<close>\<close>

text \<open>The result is the record's index (the pointer the source returns) and the state.
  The \<^verbatim>\<open>assert\<close> on the capacity is the error.\<close>

definition getOrCreateNode :: "Platform \<Rightarrow> NodeNum \<Rightarrow> NodeDB \<Rightarrow> error + nat \<times> NodeDB" where
  "getOrCreateNode env n s =
     (case getNode s n of
        Some i \<Rightarrow> Inr (i, s)
      | None \<Rightarrow>
          if numNodes s < MAX_NUM_NODES env
          then Inr (numNodes s,
                 s\<lparr>devicestate := (devicestate s)\<lparr>node_db :=
                      node_db (devicestate s) @ [zero_NodeInfo\<lparr>num := n\<rparr>]\<rparr>\<rparr>)
          else Inl AssertionFailed)"

text \<open>A write through the pointer \<^verbatim>\<open>info\<close>.\<close>

definition modify_node :: "nat \<Rightarrow> (NodeInfo \<Rightarrow> NodeInfo) \<Rightarrow> NodeDB \<Rightarrow> NodeDB" where
  "modify_node i f s =
     s\<lparr>devicestate := (devicestate s)\<lparr>node_db :=
          (node_db (devicestate s))[i := f (node_db (devicestate s) ! i)]\<rparr>\<rparr>"

definition add_effect :: "Effect \<Rightarrow> NodeDB \<Rightarrow> NodeDB" where
  "add_effect e s = s\<lparr>effects := effects s @ [e]\<rparr>"

subsection \<open>\<^verbatim>\<open>NodeDB::updatePosition\<close>\<close>

definition updatePosition :: "Platform \<Rightarrow> NodeNum \<Rightarrow> Position \<Rightarrow> NodeDB \<Rightarrow> error + NodeDB" where
  "updatePosition env nodeId p s =
     (case getOrCreateNode env nodeId s of
        Inl e \<Rightarrow> Inl e
      | Inr (i, s1) \<Rightarrow>
          Inr (add_effect (NotifyObservers True)
                ((modify_node i (\<lambda>info. info\<lparr>position := p, has_position := True\<rparr>) s1)
                   \<lparr>updateGUIforNode := Some i\<rparr>)))"

subsection \<open>\<^verbatim>\<open>NodeDB::updateUser\<close>\<close>

definition updateUser :: "Platform \<Rightarrow> NodeNum \<Rightarrow> User \<Rightarrow> NodeDB \<Rightarrow> error + NodeDB" where
  "updateUser env nodeId p s =
     (case getOrCreateNode env nodeId s of
        Inl e \<Rightarrow> Inl e
      | Inr (i, s1) \<Rightarrow>
          let changed = (user (node_db (devicestate s1) ! i) \<noteq> p);
              s2 = modify_node i (\<lambda>info. info\<lparr>user := p, has_user := True\<rparr>) s1
          in if changed
             then Inr (add_effect (NotifyObservers True)
                        (add_effect PowerFSM_trigger_EVENT_NODEDB_UPDATED
                          (s2\<lparr>updateGUIforNode := Some i\<rparr>)))
             else Inr s2)"

subsection \<open>\<^verbatim>\<open>NodeDB::updateFrom\<close>\<close>

text \<open>Modelled from the spec: \<^verbatim>\<open>getNodeNum\<close> is declared in \<^verbatim>\<open>NodeDB.h\<close>, which is not
  part of the sources; it is the local node number.\<close>

definition getNodeNum :: "NodeDB \<Rightarrow> NodeNum" where
  "getNodeNum s = my_node_num (my_node (devicestate s))"

definition updateFrom :: "Platform \<Rightarrow> MeshPacket \<Rightarrow> NodeDB \<Rightarrow> error + NodeDB" where
  "updateFrom env mp s =
     (case payload mp of
        MeshPacket_decoded p \<Rightarrow>
          (case getOrCreateNode env (mp_from mp) s of
             Inl e \<Rightarrow> Inl e
           | Inr (i, s1) \<Rightarrow>
               let s2 = (if rx_time mp \<noteq> 0
                         then modify_node i (\<lambda>info. info\<lparr>has_position := True,
                                position := (position info)\<lparr>time := rx_time mp\<rparr>\<rparr>) s1
                         else s1);
                   s3 = modify_node i (\<lambda>info. info\<lparr>snr := rx_snr mp\<rparr>) s2
               in (case p of
                     SubPacket_position pos \<Rightarrow> updatePosition env (mp_from mp) pos s3
                   | SubPacket_data d \<Rightarrow>
                       if mp_to mp = NODENUM_BROADCAST env \<or> mp_to mp = getNodeNum s3
                       then Inr (add_effect (CallPlugins mp) s3)
                       else Inr s3
                   | SubPacket_user u \<Rightarrow> updateUser env (mp_from mp) u s3
                   | SubPacket_other \<Rightarrow> Inr (add_effect (NotifyObservers False) s3)))
      | MeshPacket_encrypted b \<Rightarrow> Inr s)"

subsection \<open>\<^verbatim>\<open>sinceLastSeen\<close> and \<^verbatim>\<open>NodeDB::getNumOnlineNodes\<close>\<close>

text \<open>\<^verbatim>\<open>getTime()\<close> is the argument \<open>now\<close>. The difference is taken in \<^verbatim>\<open>uint32_t\<close> and
  read as an \<^verbatim>\<open>int\<close> of 32 bits.\<close>

definition sinceLastSeen :: "u32 \<Rightarrow> NodeInfo \<Rightarrow> u32" where
  "sinceLastSeen now n =
     (let last_seen = time (position n);
          delta = sint (now - last_seen)
      in if delta < 0 then 0 else word_of_int delta)"

fun count_online :: "u32 \<Rightarrow> NodeInfo list \<Rightarrow> nat" where
  "count_online now [] = 0"
| "count_online now (n # ns) =
     (if sinceLastSeen now n < NUM_ONLINE_SECS then Suc (count_online now ns)
      else count_online now ns)"

definition getNumOnlineNodes :: "u32 \<Rightarrow> NodeDB \<Rightarrow> nat" where
  "getNumOnlineNodes now s = count_online now (node_db (devicestate s))"

section \<open>Channel configuration\<close>

text \<open>The references \<^verbatim>\<open>myNodeInfo\<close>, \<^verbatim>\<open>radioConfig\<close>, \<^verbatim>\<open>channelSettings\<close> and
  \<^verbatim>\<open>owner\<close> into \<^verbatim>\<open>devicestate\<close>, for reading and for writing.\<close>

definition myNodeInfo :: "NodeDB \<Rightarrow> MyNodeInfo" where
  "myNodeInfo s = my_node (devicestate s)"

definition radioConfig :: "NodeDB \<Rightarrow> RadioConfig" where
  "radioConfig s = radio (devicestate s)"

definition channelSettings :: "NodeDB \<Rightarrow> ChannelSettings" where
  "channelSettings s = channel_settings (radio (devicestate s))"

definition set_myNodeInfo :: "(MyNodeInfo \<Rightarrow> MyNodeInfo) \<Rightarrow> NodeDB \<Rightarrow> NodeDB" where
  "set_myNodeInfo f s = s\<lparr>devicestate := (devicestate s)\<lparr>my_node := f (my_node (devicestate s))\<rparr>\<rparr>"

definition set_radioConfig :: "(RadioConfig \<Rightarrow> RadioConfig) \<Rightarrow> NodeDB \<Rightarrow> NodeDB" where
  "set_radioConfig f s = s\<lparr>devicestate := (devicestate s)\<lparr>radio := f (radio (devicestate s))\<rparr>\<rparr>"

definition set_preferences :: "(UserPreferences \<Rightarrow> UserPreferences) \<Rightarrow> NodeDB \<Rightarrow> NodeDB" where
  "set_preferences f s = set_radioConfig (\<lambda>r. r\<lparr>preferences := f (preferences r)\<rparr>) s"

definition set_channelSettings :: "(ChannelSettings \<Rightarrow> ChannelSettings) \<Rightarrow> NodeDB \<Rightarrow> NodeDB" where
  "set_channelSettings f s = set_radioConfig (\<lambda>r. r\<lparr>channel_settings := f (channel_settings r)\<rparr>) s"

definition set_owner :: "(User \<Rightarrow> User) \<Rightarrow> NodeDB \<Rightarrow> NodeDB" where
  "set_owner f s = s\<lparr>devicestate := (devicestate s)\<lparr>owner := f (owner (devicestate s))\<rparr>\<rparr>"

subsection \<open>\<^verbatim>\<open>NodeDB::resetRadioConfig\<close>, step by step\<close>

definition defaultpsk :: "u8 list" where
  "defaultpsk = [0xd4, 0xf1, 0xbb, 0x3a, 0x20, 0x29, 0x07, 0x59,
                 0xf0, 0xbc, 0xff, 0xab, 0xcf, 0x4e, 0x69, 0xbf]"

text \<open>The branch \<^verbatim>\<open>else if (!channelSettings.psk.size)\<close>.\<close>

definition setDefaultPreferences :: "NodeDB \<Rightarrow> NodeDB" where
  "setDefaultPreferences s =
     set_channelSettings (\<lambda>c. c\<lparr>modem_config := ChannelSettings_ModemConfig_Bw125Cr48Sf4096,
         tx_power := 0, psk := [1], name := []\<rparr>)
       (set_radioConfig (\<lambda>r. r\<lparr>has_channel_settings := True, has_preferences := True\<rparr>) s)"

text \<open>The name \<^verbatim>\<open>"Default"\<close> becomes the empty name, and \<^verbatim>\<open>channelName\<close> is the name or,
  for the empty name, the name of the modem configuration.\<close>

definition resolveChannelName :: "NodeDB \<Rightarrow> NodeDB" where
  "resolveChannelName s =
     (let s1 = (if name (channelSettings s) = ''Default''
                then set_channelSettings (\<lambda>c. c\<lparr>name := []\<rparr>) s else s);
          cs = channelSettings s1
      in s1\<lparr>channelName :=
           (if name cs \<noteq> [] then name cs
            else if bandwidth cs \<noteq> 0 then ''Unset''
            else (case modem_config cs of
                    ChannelSettings_ModemConfig_Bw125Cr45Sf128 \<Rightarrow> ''Medium''
                  | ChannelSettings_ModemConfig_Bw500Cr45Sf128 \<Rightarrow> ''ShortFast''
                  | ChannelSettings_ModemConfig_Bw31_25Cr48Sf512 \<Rightarrow> ''LongAlt''
                  | ChannelSettings_ModemConfig_Bw125Cr48Sf4096 \<Rightarrow> ''LongSlow''
                  | ChannelSettings_ModemConfig_Other v \<Rightarrow> ''Invalid''))\<rparr>)"

text \<open>A stored key that is the default key becomes the index 1.\<close>

definition convertDefaultPSK :: "NodeDB \<Rightarrow> NodeDB" where
  "convertDefaultPSK s =
     (if length (psk (channelSettings s)) = length defaultpsk
         \<and> take (length defaultpsk) (psk (channelSettings s)) = defaultpsk
      then set_channelSettings (\<lambda>c. c\<lparr>psk := [1]\<rparr>) s else s)"

text \<open>The expansion of the stored key into \<^verbatim>\<open>activePSK\<close>: the \<^verbatim>\<open>memcpy\<close> of the stored
  bytes, and for a stored key of one byte the key that its index stands for.\<close>

definition expandPSK :: "NodeDB \<Rightarrow> NodeDB" where
  "expandPSK s =
     (let s1 = s\<lparr>activePSK := psk (channelSettings s)\<rparr>
      in if length (activePSK s1) = 1
         then (let pskIndex = activePSK s1 ! 0
               in if pskIndex = 0 then s1\<lparr>activePSK := []\<rparr>
                  else s1\<lparr>activePSK := defaultpsk[length defaultpsk - 1 :=
                          defaultpsk ! (length defaultpsk - 1) + pskIndex - 1]\<rparr>)
         else s1)"

definition setKey :: "NodeDB \<Rightarrow> NodeDB" where
  "setKey s = add_effect (CryptoSetKey (activePSK s)) s"

text \<open>The block under \<^verbatim>\<open>if (devicestate.no_save)\<close>.\<close>

definition developmentMode :: "NodeDB \<Rightarrow> NodeDB" where
  "developmentMode s =
     (if no_save (devicestate s)
      then set_preferences (\<lambda>p. p\<lparr>screen_on_secs := 10, wait_bluetooth_secs := 10,
             position_broadcast_secs := 6 * 60, ls_secs := 60, region := RegionCode_TW\<rparr>) s
      else s)"

text \<open>What \<^verbatim>\<open>resetRadioConfig\<close> does after its first \<^verbatim>\<open>if\<close>.\<close>

definition applyChannelSettings :: "NodeDB \<Rightarrow> NodeDB" where
  "applyChannelSettings s =
     add_effect InitRegion
       (developmentMode (setKey (expandPSK (convertDefaultPSK (resolveChannelName s)))))"

subsection \<open>\<^verbatim>\<open>NodeDB::pickNewNodeNum\<close>\<close>

text \<open>The node number made of the last four bytes of the hardware address.\<close>

definition macNodeNum :: "u8 list \<Rightarrow> NodeNum" where
  "macNodeNum m = push_bit 24 (ucast (m ! 2)) OR push_bit 16 (ucast (m ! 3))
                  OR push_bit 8 (ucast (m ! 4)) OR ucast (m ! 5)"

text \<open>\<^verbatim>\<open>random(lo, hi)\<close> of the platform library: the \<open>k\<close>-th draw, a number from \<open>lo\<close> up
  to \<open>hi - 1\<close>.\<close>

definition random_between :: "Platform \<Rightarrow> nat \<Rightarrow> NodeNum \<Rightarrow> NodeNum \<Rightarrow> NodeNum" where
  "random_between env k lo hi = of_nat (unat lo + random_raw env k mod (unat hi - unat lo))"

text \<open>The condition of the loop: the number is in the table, under another hardware
  address than the owner's.\<close>

definition in_use :: "NodeInfo list \<Rightarrow> u8 list \<Rightarrow> NodeNum \<Rightarrow> bool" where
  "in_use nodes mac r =
     (case getNodeIdx nodes r of
        None \<Rightarrow> False
      | Some i \<Rightarrow> macaddr (user (nodes ! i)) \<noteq> mac)"

text \<open>The \<^verbatim>\<open>while\<close> loop. It has no bound in the source: \<open>None\<close> is the loop that never
  ends. The result is the number and the count of draws.\<close>

partial_function (option) pickLoop ::
    "Platform \<Rightarrow> NodeInfo list \<Rightarrow> u8 list \<Rightarrow> nat \<Rightarrow> NodeNum \<Rightarrow> (NodeNum \<times> nat) option" where
  [code]: "pickLoop env nodes mac k r =
     (if in_use nodes mac r
      then pickLoop env nodes mac (Suc k)
             (random_between env k NUM_RESERVED (NODENUM_BROADCAST env))
      else Some (r, k))"

definition pickNewNodeNum :: "Platform \<Rightarrow> NodeDB \<Rightarrow> NodeDB option" where
  "pickNewNodeNum env s =
     (let r0 = my_node_num (myNodeInfo s);
          r1 = (if r0 = 0 then macNodeNum (ourMacAddr s) else r0);
          r2 = (if r1 = NODENUM_BROADCAST env \<or> r1 < NUM_RESERVED then NUM_RESERVED else r1)
      in case pickLoop env (node_db (devicestate s)) (macaddr (owner (devicestate s)))
                (rand_pos s) r2 of
           None \<Rightarrow> None
         | Some (r, k) \<Rightarrow>
             Some (set_myNodeInfo (\<lambda>m. m\<lparr>my_node_num := r\<rparr>) (s\<lparr>rand_pos := k\<rparr>)))"

subsection \<open>\<^verbatim>\<open>NodeDB::resetRadioConfig\<close> and \<^verbatim>\<open>NodeDB::installDefaultDeviceState\<close>\<close>

text \<open>\<^verbatim>\<open>%02x\<close> and \<^verbatim>\<open>%02X\<close> of a byte.\<close>

definition fmt_02x :: "u8 \<Rightarrow> string" where
  "fmt_02x b = [''0123456789abcdef'' ! (unat b div 16), ''0123456789abcdef'' ! (unat b mod 16)]"

definition fmt_02X :: "u8 \<Rightarrow> string" where
  "fmt_02X b = [''0123456789ABCDEF'' ! (unat b div 16), ''0123456789ABCDEF'' ! (unat b mod 16)]"

text \<open>The record after \<^verbatim>\<open>memset\<close> and the flags that \<^verbatim>\<open>installDefaultDeviceState\<close> sets
  before it calls \<^verbatim>\<open>resetRadioConfig\<close>.\<close>

definition blank_DeviceState :: DeviceState where
  "blank_DeviceState = zero_DeviceState\<lparr>has_my_node := True, has_radio := True,
     has_owner := True,
     radio := zero_RadioConfig\<lparr>has_channel_settings := True, has_preferences := True\<rparr>,
     node_db := [], receive_queue_count := 0\<rparr>"

text \<open>The two functions call each other. Not returning (\<open>None\<close>) comes from the loop of
  \<^verbatim>\<open>pickNewNodeNum\<close> only.\<close>

function resetRadioConfig :: "Platform \<Rightarrow> NodeDB \<Rightarrow> (bool \<times> NodeDB) option"
  and installDefaultDeviceState :: "Platform \<Rightarrow> NodeDB \<Rightarrow> NodeDB option" where
  "resetRadioConfig env s =
     (let s1 = s\<lparr>radioGeneration := radioGeneration s + 1\<rparr>
      in if factory_reset (preferences (radio (devicestate s1)))
         then (case installDefaultDeviceState env s1 of
                 None \<Rightarrow> None
               | Some s2 \<Rightarrow> Some (True, applyChannelSettings s2))
         else if psk (channel_settings (radio (devicestate s1))) = []
         then Some (False, applyChannelSettings (setDefaultPreferences s1))
         else Some (False, applyChannelSettings s1))"
| "installDefaultDeviceState env s =
     (let oldRegion = node_region (my_node (devicestate s));
          oldRegionCode = region (preferences (radio (devicestate s)));
          s1 = s\<lparr>devicestate := blank_DeviceState\<rparr>
      in case resetRadioConfig env s1 of
           None \<Rightarrow> None
         | Some (didFactoryReset, s2) \<Rightarrow>
             (let s3 = set_myNodeInfo (\<lambda>m. m\<lparr>has_gps := False,
                         message_timeout_msec := FLOOD_EXPIRE_TIME env,
                         current_packet_id := generatePacketId env\<rparr>) s2;
                  s4 = s3\<lparr>ourMacAddr := getMacAddr env\<rparr>;
                  s5 = set_owner (\<lambda>u. u\<lparr>user_id := ''!'' @ fmt_02x (ourMacAddr s4 ! 0)
                           @ fmt_02x (ourMacAddr s4 ! 1) @ fmt_02x (ourMacAddr s4 ! 2)
                           @ fmt_02x (ourMacAddr s4 ! 3) @ fmt_02x (ourMacAddr s4 ! 4)
                           @ fmt_02x (ourMacAddr s4 ! 5),
                         macaddr := ourMacAddr s4\<rparr>) s4
              in case pickNewNodeNum env s5 of
                   None \<Rightarrow> None
                 | Some s6 \<Rightarrow>
                     (let s7 = set_owner (\<lambda>u. u\<lparr>long_name := ''Unknown ''
                                   @ fmt_02x (ourMacAddr s6 ! 4) @ fmt_02x (ourMacAddr s6 ! 5),
                                 short_name := ''?'' @ fmt_02X
                                   (ucast (my_node_num (my_node (devicestate s6)) AND 0xff))\<rparr>) s6;
                          s8 = (if oldRegionCode \<noteq> RegionCode_Unset
                                then set_preferences (\<lambda>p. p\<lparr>region := oldRegionCode\<rparr>) s7
                                else s7);
                          s9 = (if oldRegion \<noteq> []
                                then set_myNodeInfo (\<lambda>m. m\<lparr>node_region := oldRegion\<rparr>) s8
                                else s8)
                      in Some s9)))"
  by pat_completeness auto
termination
proof (relation "measure (\<lambda>x. case x of
          Inl (env, s) \<Rightarrow> (if factory_reset (preferences (radio (devicestate s))) then 2 else 0)
        | Inr (env, s) \<Rightarrow> 1)")
  show "wf (measure (\<lambda>x. case x of
          Inl (env, s) \<Rightarrow> (if factory_reset (preferences (radio (devicestate s))) then 2 else 0)
        | Inr (env, s) \<Rightarrow> (1::nat)))" by simp
qed (simp_all add: blank_DeviceState_def zero_DeviceState_def zero_RadioConfig_def
       zero_UserPreferences_def)

declare resetRadioConfig.simps [simp del] installDefaultDeviceState.simps [simp del]


subsection \<open>\<^verbatim>\<open>getChannelName\<close>\<close>

text \<open>\<^verbatim>\<open>snprintf(buf, n, ...)\<close> followed by reading \<^verbatim>\<open>buf\<close> as a C string: at most
  \<open>n - 1\<close> characters of the output are stored, and the string ends before the first NUL
  character.\<close>

definition snprintf :: "nat \<Rightarrow> string \<Rightarrow> string" where
  "snprintf n out = takeWhile (\<lambda>c. c \<noteq> CHR 0x00) (take (n - 1) out)"

text \<open>The pointer \<^verbatim>\<open>channelName\<close> is null until \<^verbatim>\<open>resetRadioConfig\<close> has run once, and
  \<^verbatim>\<open>getChannelName\<close> has no defined result before that; the record holds the empty string
  there. The properties below read \<^verbatim>\<open>getChannelName\<close> only in a state that
  \<^verbatim>\<open>resetRadioConfig\<close> returned or in which \<^verbatim>\<open>channelName\<close> is given.

  The result is the string in the static buffer \<^verbatim>\<open>buf\<close> of 32 bytes. The sums
  \<^verbatim>\<open>'A' + (code % 26)\<close> and \<^verbatim>\<open>'0' + channelSettings.psk.bytes[0]\<close> are stored in a
  \<^verbatim>\<open>char\<close>: \<open>char_of\<close> keeps the low 8 bits.\<close>

definition getChannelName :: "NodeDB \<Rightarrow> string" where
  "getChannelName s =
     (let suffix =
            (if length (psk (channelSettings s)) \<noteq> 1
             then (let code = fold (\<lambda>b code. code XOR b) (activePSK s) (0::u8)
                   in char_of (of_char CHR ''A'' + unat code mod 26 :: nat))
             else char_of (of_char CHR ''0'' + unat (psk (channelSettings s) ! 0) :: nat))
      in snprintf 32 (''#'' @ channelName s @ ''-'' @ [suffix]))"

section \<open>Persistence\<close>

definition preffile :: string where
  "preffile = ''/db.proto''"

definition preftmp :: string where
  "preftmp = ''/db.proto.tmp''"

text \<open>\<^verbatim>\<open>FS.remove\<close> and \<^verbatim>\<open>FS.rename\<close> of the platform library, with their results: a
  file that exists is removed or renamed, a file that does not exist makes the call fail
  and leaves the filesystem as it is.\<close>

definition FS_remove :: "string \<Rightarrow> NodeDB \<Rightarrow> bool \<times> NodeDB" where
  "FS_remove p s =
     (if files s p \<noteq> None then (True, s\<lparr>files := (files s)(p := None)\<rparr>) else (False, s))"

definition FS_rename :: "string \<Rightarrow> string \<Rightarrow> NodeDB \<Rightarrow> bool \<times> NodeDB" where
  "FS_rename a b s =
     (case files s a of
        Some c \<Rightarrow> (True, s\<lparr>files := (files s)(a := None, b \<mapsto> c)\<rparr>)
      | None \<Rightarrow> (False, s))"

subsection \<open>\<^verbatim>\<open>NodeDB::loadFromDisk\<close>\<close>

text \<open>With \<^verbatim>\<open>FS\<close> defined. The record is zeroed before \<^verbatim>\<open>pb_decode\<close> runs, so what the
  decoder leaves in it depends on the file only; on a failure it is what was decoded up
  to the failure.\<close>

definition loadFromDisk :: "Platform \<Rightarrow> NodeDB \<Rightarrow> NodeDB option" where
  "loadFromDisk env s =
     (case files s preffile of
        Some blob \<Rightarrow>
          (let (ok, d) = pb_decode env blob;
               s1 = s\<lparr>devicestate := d\<rparr>
           in if \<not> ok then installDefaultDeviceState env s1
              else if version (devicestate s1) < DEVICESTATE_MIN_VER
              then installDefaultDeviceState env s1
              else Some s1)
      | None \<Rightarrow> Some s)"

subsection \<open>\<^verbatim>\<open>NodeDB::saveToDisk\<close>\<close>

text \<open>With \<^verbatim>\<open>FS\<close> defined. Opening the temporary file for writing creates it empty; after
  \<^verbatim>\<open>pb_encode\<close> it holds the bytes the encoder wrote, all of them or those before the
  failure.\<close>

definition saveToDisk :: "Platform \<Rightarrow> NodeDB \<Rightarrow> NodeDB" where
  "saveToDisk env s =
     (if \<not> no_save (devicestate s)
      then (if open_write_ok env
            then (let s1 = s\<lparr>files := (files s)(preftmp \<mapsto> [])\<rparr>;
                      s2 = s1\<lparr>devicestate := (devicestate s1)\<lparr>version := DEVICESTATE_CUR_VER\<rparr>\<rparr>;
                      (ok, bytes) = pb_encode env (devicestate s2);
                      s3 = s2\<lparr>files := (files s2)(preftmp \<mapsto> bytes)\<rparr>
                  in if \<not> ok then s3
                     else snd (FS_rename preftmp preffile (snd (FS_remove preffile s3))))
            else s)
      else s)"

section \<open>Notions the properties are stated with\<close>

text \<open>The numbers under which the table holds a record.\<close>

definition keys :: "NodeDB \<Rightarrow> NodeNum set" where
  "keys s = num ` set (node_db (devicestate s))"


text \<open>The user record that \<^verbatim>\<open>updateUser\<close> compares its payload with: the one of the
  node's record, and the zeroed one when the call has to create the record.\<close>

definition stored_user :: "NodeDB \<Rightarrow> NodeNum \<Rightarrow> User" where
  "stored_user s n =
     (case getNode s n of Some i \<Rightarrow> user (node_db (devicestate s) ! i) | None \<Rightarrow> zero_User)"

text \<open>The number that \<^verbatim>\<open>pickNewNodeNum\<close> tries first: the value of \<^verbatim>\<open>r\<close> when the loop is
  reached.\<close>

definition firstCandidate :: "Platform \<Rightarrow> NodeDB \<Rightarrow> NodeNum" where
  "firstCandidate env s =
     (let r0 = my_node_num (myNodeInfo s);
          r1 = (if r0 = 0 then macNodeNum (ourMacAddr s) else r0)
      in if r1 = NODENUM_BROADCAST env \<or> r1 < NUM_RESERVED then NUM_RESERVED else r1)"

text \<open>The condition of the loop of \<^verbatim>\<open>pickNewNodeNum\<close> in the state \<open>s\<close>: the table holds the
  number \<open>r\<close> under a hardware address that is not the owner's.\<close>

definition taken :: "NodeDB \<Rightarrow> NodeNum \<Rightarrow> bool" where
  "taken s r = in_use (node_db (devicestate s)) (macaddr (owner (devicestate s))) r"

text \<open>The number that the call number \<open>i\<close> (from 0) of \<^verbatim>\<open>random(NUM_RESERVED, NODENUM_BROADCAST)\<close>
  returns, counted from the state \<open>s\<close>.\<close>

definition draw :: "Platform \<Rightarrow> NodeDB \<Rightarrow> nat \<Rightarrow> NodeNum" where
  "draw env s i = random_between env (rand_pos s + i) NUM_RESERVED (NODENUM_BROADCAST env)"

subsection \<open>Concrete inputs\<close>

text \<open>The globals as the C runtime initialises them (all zero), on an empty filesystem.\<close>

definition boot_NodeDB :: NodeDB where
  "boot_NodeDB = \<lparr>devicestate = zero_DeviceState, radioGeneration = 0,
     ourMacAddr = [0, 0, 0, 0, 0, 0], channelName = [], activePSK = [],
     updateGUIforNode = None, effects = [], files = Map.empty, rand_pos = 0\<rparr>"

text \<open>A platform: a table of 32 records, the all-ones broadcast number, a codec whose
  decoder fails and whose encoder succeeds and writes the version as one byte.\<close>

definition example_platform :: Platform where
  "example_platform = \<lparr>MAX_NUM_NODES = 32, NODENUM_BROADCAST = 0xFFFFFFFF,
     FLOOD_EXPIRE_TIME = 600000, getMacAddr = [0x24, 0x6F, 0x28, 0x01, 0x02, 0x03],
     generatePacketId = 1, random_raw = (\<lambda>k. k),
     pb_decode = (\<lambda>b. (False, zero_DeviceState)), pb_encode = (\<lambda>d. (True, [ucast (version d)])),
     open_write_ok = True\<rparr>"


text \<open>A record of the node \<open>0x42\<close> last heard at the time \<open>t\<close>.\<close>

definition node_seen_at :: "u32 \<Rightarrow> NodeInfo" where
  "node_seen_at t = zero_NodeInfo\<lparr>num := 0x42, has_position := True,
     position := zero_Position\<lparr>time := t\<rparr>\<rparr>"

text \<open>The boot state with the given peer table.\<close>

definition table_of :: "NodeInfo list \<Rightarrow> NodeDB" where
  "table_of ns = boot_NodeDB\<lparr>devicestate := zero_DeviceState\<lparr>node_db := ns\<rparr>\<rparr>"

text \<open>A user payload.\<close>

definition userA :: User where
  "userA = \<lparr>user_id = ''+16508675309'', long_name = ''Alice'', short_name = ''Al'',
     macaddr = [0xAA, 0xBB, 0xCC, 0x10, 0x20, 0x30]\<rparr>"

text \<open>A decoded data packet from \<open>0x42\<close> to \<open>0x99\<close>: neither broadcast nor the local node.\<close>

definition data_packet_for_other :: MeshPacket where
  "data_packet_for_other = \<lparr>mp_from = 0x42, mp_to = 0x99,
     payload = MeshPacket_decoded (SubPacket_data [1, 2, 3]), rx_time = 1000, rx_snr = 7\<rparr>"

text \<open>The platform with a random generator whose raw draws are all 0: every call of \<^verbatim>\<open>random\<close> returns \<^verbatim>\<open>NUM_RESERVED\<close>.\<close>

definition stuck_platform :: Platform where
  "stuck_platform = example_platform\<lparr>random_raw := (\<lambda>k. 0)\<rparr>"

text \<open>A table that holds the number 4 under a hardware address that is not the owner's.\<close>

definition stuck_NodeDB :: NodeDB where
  "stuck_NodeDB = table_of [zero_NodeInfo\<lparr>num := 4,
      user := zero_User\<lparr>macaddr := [1, 1, 1, 1, 1, 1]\<rparr>\<rparr>]"

text \<open>The same table, with the local node number 7 already set.\<close>

definition free_start_NodeDB :: NodeDB where
  "free_start_NodeDB = set_myNodeInfo (\<lambda>m. m\<lparr>my_node_num := 7\<rparr>) stuck_NodeDB"

text \<open>The boot state with the given stored key.\<close>

definition with_psk :: "u8 list \<Rightarrow> NodeDB" where
  "with_psk k = set_channelSettings (\<lambda>c. c\<lparr>psk := k\<rparr>) boot_NodeDB"

text \<open>The same with the preference \<^verbatim>\<open>factory_reset\<close> set.\<close>

definition factory_reset_with_psk :: "u8 list \<Rightarrow> NodeDB" where
  "factory_reset_with_psk k = set_preferences (\<lambda>p. p\<lparr>factory_reset := True\<rparr>) (with_psk k)"

text \<open>The node number that \<^verbatim>\<open>pickNewNodeNum\<close> picks on an empty table and a node number 0: the one of the hardware address, or \<^verbatim>\<open>NUM_RESERVED\<close> when that one is reserved or broadcast.\<close>

definition initial_node_num :: "Platform \<Rightarrow> NodeNum" where
  "initial_node_num env =
     (let r1 = macNodeNum (getMacAddr env)
      in if r1 = NODENUM_BROADCAST env \<or> r1 < NUM_RESERVED then NUM_RESERVED else r1)"

text \<open>The record that \<^verbatim>\<open>installDefaultDeviceState\<close> leaves, written out, for the region code \<open>rc\<close> and the region string \<open>rs\<close> found before the call.\<close>

definition default_DeviceState :: "Platform \<Rightarrow> RegionCode \<Rightarrow> string \<Rightarrow> DeviceState" where
  "default_DeviceState env rc rs =
     \<lparr>has_radio = True,
      radio = \<lparr>has_preferences = True,
               preferences = \<lparr>position_broadcast_secs = 0, wait_bluetooth_secs = 0,
                 screen_on_secs = 0, ls_secs = 0, region = rc, factory_reset = False\<rparr>,
               has_channel_settings = True,
               channel_settings = \<lparr>tx_power = 0,
                 modem_config = ChannelSettings_ModemConfig_Bw125Cr48Sf4096, psk = [1],
                 name = [], bandwidth = 0\<rparr>\<rparr>,
      has_my_node = True,
      my_node = \<lparr>my_node_num = initial_node_num env, has_gps = False, node_region = rs,
                 message_timeout_msec = FLOOD_EXPIRE_TIME env,
                 current_packet_id = generatePacketId env\<rparr>,
      has_owner = True,
      owner = \<lparr>user_id = ''!'' @ fmt_02x (getMacAddr env ! 0) @ fmt_02x (getMacAddr env ! 1)
                  @ fmt_02x (getMacAddr env ! 2) @ fmt_02x (getMacAddr env ! 3)
                  @ fmt_02x (getMacAddr env ! 4) @ fmt_02x (getMacAddr env ! 5),
               long_name = ''Unknown '' @ fmt_02x (getMacAddr env ! 4) @ fmt_02x (getMacAddr env ! 5),
               short_name = ''?'' @ fmt_02X (ucast (initial_node_num env AND 0xff)),
               macaddr = getMacAddr env\<rparr>,
      node_db = [], receive_queue_count = 0, version = 0, no_save = False\<rparr>"

text \<open>A record with its region code and its region string replaced.\<close>

definition with_region :: "RegionCode \<Rightarrow> string \<Rightarrow> DeviceState \<Rightarrow> DeviceState" where
  "with_region rc rs d =
     d\<lparr>radio := (radio d)\<lparr>preferences := (preferences (radio d))\<lparr>region := rc\<rparr>\<rparr>,
       my_node := (my_node d)\<lparr>node_region := rs\<rparr>\<rparr>"

text \<open>A platform whose decoder succeeds and yields a record of version 10, with a peer, a key, a channel name and the region code \<^verbatim>\<open>RegionCode_TW\<close>.\<close>

definition old_file_platform :: Platform where
  "old_file_platform = example_platform\<lparr>pb_decode := (\<lambda>b. (True,
      zero_DeviceState\<lparr>version := 10, node_db := [node_seen_at 5],
        radio := zero_RadioConfig\<lparr>preferences := zero_UserPreferences\<lparr>region := RegionCode_TW\<rparr>,
          channel_settings := zero_ChannelSettings\<lparr>psk := [7, 8], name := ''Old''\<rparr>\<rparr>\<rparr>))\<rparr>"

text \<open>A platform where the temporary file cannot be opened for writing.\<close>

definition readonly_platform :: Platform where
  "readonly_platform = example_platform\<lparr>open_write_ok := False\<rparr>"

text \<open>A platform whose encoder fails after it has written one byte.\<close>

definition failing_encoder_platform :: Platform where
  "failing_encoder_platform = example_platform\<lparr>pb_encode := (\<lambda>d. (False, [9]))\<rparr>"

text \<open>The boot state on a filesystem that holds a saved file.\<close>

definition saved_NodeDB :: NodeDB where
  "saved_NodeDB = boot_NodeDB\<lparr>files := [preffile \<mapsto> [7, 7]]\<rparr>"

text \<open>The same with the flag \<^verbatim>\<open>no_save\<close> set.\<close>

definition no_save_NodeDB :: NodeDB where
  "no_save_NodeDB = saved_NodeDB\<lparr>devicestate := zero_DeviceState\<lparr>no_save := True\<rparr>\<rparr>"

section \<open>Properties of the peer table\<close>

lemma getNodeIdx_Some:
  "getNodeIdx xs n = Some i \<Longrightarrow> i < length xs \<and> num (xs ! i) = n"
  by (induction xs arbitrary: i) (auto split: if_splits)

lemma getNodeIdx_None_iff: "getNodeIdx xs n = None \<longleftrightarrow> n \<notin> num ` set xs"
  by (induction xs) auto

lemma getNodeIdx_append:
  "getNodeIdx (xs @ ys) n =
     (case getNodeIdx xs n of Some i \<Rightarrow> Some i
      | None \<Rightarrow> map_option (\<lambda>j. length xs + j) (getNodeIdx ys n))"
proof (induction xs)
  case Nil
  show ?case by (cases "getNodeIdx ys n") simp_all
next
  case (Cons x xs)
  then show ?case by (cases "getNodeIdx ys n"; cases "getNodeIdx xs n") auto
qed

lemma getNodeIdx_update:
  "num (f (xs ! i)) = num (xs ! i) \<Longrightarrow> getNodeIdx (xs[i := f (xs ! i)]) n = getNodeIdx xs n"
proof (induction xs arbitrary: i)
  case Nil
  then show ?case by simp
next
  case (Cons x xs)
  then show ?case by (cases i) auto
qed

lemma getOrCreateNode_found:
  "getNode s n = Some i \<Longrightarrow> getOrCreateNode env n s = Inr (i, s)"
  by (simp add: getOrCreateNode_def)

lemma getOrCreateNode_new:
  "getNode s n = None \<Longrightarrow> numNodes s < MAX_NUM_NODES env \<Longrightarrow>
   getOrCreateNode env n s = Inr (numNodes s,
      s\<lparr>devicestate := (devicestate s)\<lparr>node_db :=
            node_db (devicestate s) @ [zero_NodeInfo\<lparr>num := n\<rparr>]\<rparr>\<rparr>)"
  by (simp add: getOrCreateNode_def)

lemma getOrCreateNode_full:
  "getNode s n = None \<Longrightarrow> \<not> numNodes s < MAX_NUM_NODES env \<Longrightarrow>
   getOrCreateNode env n s = Inl AssertionFailed"
  by (simp add: getOrCreateNode_def)

lemma getOrCreateNode_Inr:
  assumes "getOrCreateNode env n s = Inr (i, s1)"
  shows "getNode s1 n = Some i"
    and "i < numNodes s1"
    and "num (node_db (devicestate s1) ! i) = n"
    and "getNode s n = Some i \<Longrightarrow> s1 = s"
    and "getNode s n = None \<Longrightarrow> i = numNodes s \<and> numNodes s < MAX_NUM_NODES env \<and>
           node_db (devicestate s1) = node_db (devicestate s) @ [zero_NodeInfo\<lparr>num := n\<rparr>]"
    and "effects s1 = effects s" and "updateGUIforNode s1 = updateGUIforNode s"
  using assms
  by (auto simp: getOrCreateNode_def getNode_def numNodes_def getNodeIdx_append
      dest: getNodeIdx_Some split: option.splits if_splits)

text \<open>
  Claim C7. \<^verbatim>\<open>getOrCreateNode\<close> is idempotent. When the first call returns (the number
  is in the table, or the table has room: the source asserts it), a second call with the
  same number returns the same record (the same index) and leaves the state as the first
  call left it, so the occupancy does not change after the first call; a number that is
  already in the table changes nothing at all, and the number of records under the
  number is 1 after the call when it was 0 before, and what it was otherwise.
\<close>

theorem getOrCreateNode_idempotent:
  assumes "getNode s n \<noteq> None \<or> numNodes s < MAX_NUM_NODES env"
  shows "\<exists>i s1. getOrCreateNode env n s = Inr (i, s1)
           \<and> getOrCreateNode env n s1 = Inr (i, s1)
           \<and> num (node_db (devicestate s1) ! i) = n
           \<and> (getNode s n \<noteq> None \<longrightarrow> s1 = s)
           \<and> numNodes s1 = (if getNode s n = None then Suc (numNodes s) else numNodes s)
           \<and> length (filter (\<lambda>x. num x = n) (node_db (devicestate s1))) =
               max 1 (length (filter (\<lambda>x. num x = n) (node_db (devicestate s))))"
proof (cases "getNode s n")
  case None
  with assms have room: "numNodes s < MAX_NUM_NODES env" by simp
  let ?s1 = "s\<lparr>devicestate := (devicestate s)\<lparr>node_db :=
            node_db (devicestate s) @ [zero_NodeInfo\<lparr>num := n\<rparr>]\<rparr>\<rparr>"
  have first: "getOrCreateNode env n s = Inr (numNodes s, ?s1)"
    using None room by (rule getOrCreateNode_new)
  have found: "getNode ?s1 n = Some (numNodes s)"
    using None by (simp add: getNode_def numNodes_def getNodeIdx_append)
  have absent: "filter (\<lambda>x. num x = n) (node_db (devicestate s)) = []"
    using None by (auto simp: getNode_def getNodeIdx_None_iff filter_empty_conv)
  show ?thesis
    using first getOrCreateNode_found [OF found, of env] None absent
    by (simp add: numNodes_def)
next
  case (Some i)
  then have first: "getOrCreateNode env n s = Inr (i, s)" by (rule getOrCreateNode_found)
  from Some have "i < length (node_db (devicestate s))" "num (node_db (devicestate s) ! i) = n"
    by (auto simp: getNode_def dest: getNodeIdx_Some)
  then have "node_db (devicestate s) ! i \<in> set (filter (\<lambda>x. num x = n) (node_db (devicestate s)))"
    by simp
  then have "1 \<le> length (filter (\<lambda>x. num x = n) (node_db (devicestate s)))"
    by (metis One_nat_def Suc_leI length_pos_if_in_set)
  with first Some \<open>num (node_db (devicestate s) ! i) = n\<close> show ?thesis by simp
qed



lemma map_num_update:
  "num (f (xs ! i)) = num (xs ! i) \<Longrightarrow> map num (xs[i := f (xs ! i)]) = map num xs"
proof (induction xs arbitrary: i)
  case Nil
  then show ?case by simp
next
  case (Cons x xs)
  then show ?case by (cases i) auto
qed

lemma modify_node_simps:
  "effects (modify_node i f s) = effects s"
  "updateGUIforNode (modify_node i f s) = updateGUIforNode s"
  "numNodes (modify_node i f s) = numNodes s"
  "my_node (devicestate (modify_node i f s)) = my_node (devicestate s)"
  "i < numNodes s \<Longrightarrow> node_db (devicestate (modify_node i f s)) ! i = f (node_db (devicestate s) ! i)"
  by (simp_all add: modify_node_def numNodes_def)

lemma modify_node_keys:
  assumes "\<And>x. num (f x) = num x"
  shows "keys (modify_node i f s) = keys s" and "getNode (modify_node i f s) n = getNode s n"
proof -
  have "map num ((node_db (devicestate s))[i := f (node_db (devicestate s) ! i)])
      = map num (node_db (devicestate s))"
    by (rule map_num_update) (rule assms)
  then have "set (map num ((node_db (devicestate s))[i := f (node_db (devicestate s) ! i)]))
      = set (map num (node_db (devicestate s)))" by simp
  then show "keys (modify_node i f s) = keys s"
    by (simp add: keys_def modify_node_def)
  show "getNode (modify_node i f s) n = getNode s n"
    by (simp add: getNode_def modify_node_def getNodeIdx_update assms)
qed


lemma getOrCreateNode_total:
  "getNode s n \<noteq> None \<or> numNodes s < MAX_NUM_NODES env \<Longrightarrow>
   \<exists>i s1. getOrCreateNode env n s = Inr (i, s1)"
  by (auto simp: getOrCreateNode_def split: option.splits)

lemma add_effect_simps:
  "effects (add_effect e s) = effects s @ [e]"
  "updateGUIforNode (add_effect e s) = updateGUIforNode s"
  "devicestate (add_effect e s) = devicestate s"
  "keys (add_effect e s) = keys s"
  "getNode (add_effect e s) n = getNode s n"
  "numNodes (add_effect e s) = numNodes s"
  by (simp_all add: add_effect_def keys_def getNode_def numNodes_def)

lemma gui_update_simps:
  "keys (s\<lparr>updateGUIforNode := g\<rparr>) = keys s"
  "getNode (s\<lparr>updateGUIforNode := g\<rparr>) n = getNode s n"
  "numNodes (s\<lparr>updateGUIforNode := g\<rparr>) = numNodes s"
  by (simp_all add: keys_def getNode_def numNodes_def)






lemma sint_nonneg_uint:
  fixes d :: u32
  assumes "0 \<le> sint d"
  shows "sint d = uint d"
proof (cases "uint d < 2147483648")
  case True
  have low: "- (2 ^ 31) \<le> uint d"
    by (rule order_trans [of _ 0]) simp_all
  have "sint d = signed_take_bit 31 (uint d)"
    by (simp add: sint_uint)
  also have "\<dots> = uint d"
    using low by (rule signed_take_bit_int_eq_self) (use True in simp)
  finally show ?thesis .
next
  case False
  have u: "uint d < 4294967296"
    using uint_lt2p [of d] by simp
  have "sint d = signed_take_bit 31 (uint d)"
    by (simp add: sint_uint)
  also have "\<dots> = take_bit (Suc 31) (uint d + 2 ^ 31) - 2 ^ 31"
    by (rule signed_take_bit_eq_take_bit_shift)
  also have "\<dots> = (uint d + 2147483648) mod 4294967296 - 2147483648"
    by (simp add: take_bit_eq_mod)
  also have "(uint d + 2147483648) mod 4294967296 = (uint d - 2147483648) mod 4294967296"
    using mod_add_self2 [of "uint d - 2147483648" "4294967296::int"] by (simp add: add.commute)
  also have "\<dots> = uint d - 2147483648"
    by (rule mod_pos_pos_trivial) (use False u in simp_all)
  finally have "sint d < 0" using u by simp
  with assms show ?thesis by simp
qed

lemma sint_diff_exact:
  fixes a b :: u32
  assumes "- 2147483648 \<le> uint a - uint b" "uint a - uint b < 2147483648"
  shows "sint (a - b) = uint a - uint b"
proof -
  have "sint (a - b) = sint (word_of_int (uint a - uint b) :: u32)"
    by (simp only: word_sub_wi)
  also have "\<dots> = signed_take_bit 31 (uint a - uint b)"
    by (simp only: sint_sbintrunc') simp
  also have "\<dots> = uint a - uint b"
    by (rule signed_take_bit_int_eq_self) (use assms in simp_all)
  finally show ?thesis .
qed


lemma sinceLastSeen_online:
  "sinceLastSeen now n < NUM_ONLINE_SECS \<longleftrightarrow> sint (now - time (position n)) < 120"
proof (cases "sint (now - time (position n)) < 0")
  case True
  then show ?thesis by (simp add: sinceLastSeen_def NUM_ONLINE_SECS_def Let_def)
next
  case False
  then have nonneg: "0 \<le> sint (now - time (position n))" by simp
  have "sinceLastSeen now n = now - time (position n)"
    using False by (simp add: sinceLastSeen_def Let_def)
  then have "sinceLastSeen now n < NUM_ONLINE_SECS \<longleftrightarrow> uint (now - time (position n)) < 120"
    by (simp add: NUM_ONLINE_SECS_def word_less_alt)
  with sint_nonneg_uint [OF nonneg] show ?thesis by simp
qed

lemma count_online_filter:
  "count_online now ns = length (filter (\<lambda>n. sint (now - time (position n)) < 120) ns)"
  by (induction ns) (simp_all add: sinceLastSeen_online)

lemma boot_simps:
  "node_db (devicestate boot_NodeDB) = []"
  "effects boot_NodeDB = []"
  "updateGUIforNode boot_NodeDB = None"
  "my_node_num (my_node (devicestate boot_NodeDB)) = 0"
  by (simp_all add: boot_NodeDB_def zero_DeviceState_def zero_MyNodeInfo_def)

lemma example_platform_simps:
  "MAX_NUM_NODES example_platform = 32"
  "NODENUM_BROADCAST example_platform = 0xFFFFFFFF"
  by (simp_all add: example_platform_def)

text \<open>The first two calls on the empty table, with the number \<open>0x42\<close>.\<close>

theorem getOrCreateNode_idempotent_witness:
  "numNodes boot_NodeDB < MAX_NUM_NODES example_platform
   \<and> (\<exists>i s1. getOrCreateNode example_platform 0x42 boot_NodeDB = Inr (i, s1)
          \<and> getOrCreateNode example_platform 0x42 s1 = Inr (i, s1)
          \<and> numNodes s1 = 1)"
proof -
  have room: "numNodes boot_NodeDB < MAX_NUM_NODES example_platform"
    by (simp add: numNodes_def boot_simps example_platform_simps)
  have absent: "getNode boot_NodeDB 0x42 = None"
    by (simp add: getNode_def boot_simps)
  have "getNode boot_NodeDB 0x42 \<noteq> None
      \<or> numNodes boot_NodeDB < MAX_NUM_NODES example_platform"
    using room by simp
  from getOrCreateNode_idempotent [OF this] room absent show ?thesis
    by (auto simp: numNodes_def boot_simps)
qed



text \<open>
  Claim C9, as amended. \<^verbatim>\<open>getNumOnlineNodes\<close> counts the records whose elapsed time is
  below 120 seconds, where the elapsed time is the difference \<open>now - position.time\<close> taken
  in 32 bits and read as a signed number, a negative one counting as 0. When the distance
  between the two times is less than \<open>2^31\<close> seconds for every record, this is the number
  of records with \<open>max 0 (now - position.time) < 120\<close>; a record whose time is ahead
  of \<open>now\<close> by less than \<open>2^31\<close> then counts as online.
\<close>

theorem getNumOnlineNodes_signed_window:
  "getNumOnlineNodes now s =
     length (filter (\<lambda>n. sint (now - time (position n)) < 120) (node_db (devicestate s)))
   \<and> ((\<forall>n \<in> set (node_db (devicestate s)).
          - 2147483648 \<le> uint now - uint (time (position n))
          \<and> uint now - uint (time (position n)) < 2147483648)
        \<longrightarrow> getNumOnlineNodes now s =
              length (filter (\<lambda>n. max 0 (uint now - uint (time (position n))) < 120)
                (node_db (devicestate s))))"
proof (intro conjI impI)
  show first: "getNumOnlineNodes now s =
     length (filter (\<lambda>n. sint (now - time (position n)) < 120) (node_db (devicestate s)))"
    by (simp add: getNumOnlineNodes_def count_online_filter)
  assume range: "\<forall>n \<in> set (node_db (devicestate s)).
          - 2147483648 \<le> uint now - uint (time (position n))
          \<and> uint now - uint (time (position n)) < 2147483648"
  have "filter (\<lambda>n. sint (now - time (position n)) < 120) (node_db (devicestate s))
      = filter (\<lambda>n. max 0 (uint now - uint (time (position n))) < 120) (node_db (devicestate s))"
  proof (rule filter_cong [OF refl])
    fix n assume "n \<in> set (node_db (devicestate s))"
    with range have "sint (now - time (position n)) = uint now - uint (time (position n))"
      by (intro sint_diff_exact) auto
    then show "(sint (now - time (position n)) < 120)
        = (max 0 (uint now - uint (time (position n))) < 120)" by simp
  qed
  with first show "getNumOnlineNodes now s =
      length (filter (\<lambda>n. max 0 (uint now - uint (time (position n))) < 120)
                (node_db (devicestate s)))" by simp
qed

lemma table_of_nodes: "node_db (devicestate (table_of ns)) = ns"
  by (simp add: table_of_def)

lemma node_seen_at_time: "time (position (node_seen_at t)) = t"
  by (simp add: node_seen_at_def)

text \<open>At the time 1010, of the records heard at 1000, 1020 and 800, the first two are
  online.\<close>

theorem getNumOnlineNodes_signed_window_witness:
  "getNumOnlineNodes 1010 (table_of [node_seen_at 1000, node_seen_at 1020, node_seen_at 800]) = 2"
proof -
  have "\<forall>n \<in> set (node_db (devicestate (table_of [node_seen_at 1000, node_seen_at 1020, node_seen_at 800]))).
          - 2147483648 \<le> uint (1010::u32) - uint (time (position n))
          \<and> uint (1010::u32) - uint (time (position n)) < 2147483648"
    by (simp add: table_of_nodes node_seen_at_time)
  with getNumOnlineNodes_signed_window
    [of 1010 "table_of [node_seen_at 1000, node_seen_at 1020, node_seen_at 800]"]
  show ?thesis by (simp add: table_of_nodes node_seen_at_time)
qed

text \<open>
  Claim C9 as stated fails: at \<open>now = 0\<close> a record with the time 3000000000 is ahead of
  \<open>now\<close>, so the claim counts it as online (it is the one record with a clamped elapsed
  time below 120), and the source counts no record: the difference wraps to 1294967296.
\<close>

theorem getNumOnlineNodes_counterexample:
  "uint (time (position (node_seen_at 3000000000))) > uint (0::u32)
   \<and> getNumOnlineNodes 0 (table_of [node_seen_at 3000000000]) = 0
   \<and> length (filter (\<lambda>n. max 0 (uint (0::u32) - uint (time (position n))) < 120)
        (node_db (devicestate (table_of [node_seen_at 3000000000])))) = 1"
  by (simp add: getNumOnlineNodes_def table_of_nodes node_seen_at_time sinceLastSeen_online)

lemma getOrCreateNode_my_node:
  "getOrCreateNode env n s = Inr (i, s1) \<Longrightarrow> my_node (devicestate s1) = my_node (devicestate s)"
  by (auto simp: getOrCreateNode_def split: option.splits if_splits)

lemma getOrCreateNode_stored_user:
  assumes g: "getOrCreateNode env n s = Inr (i, s1)"
  shows "user (node_db (devicestate s1) ! i) = stored_user s n"
proof (cases "getNode s n")
  case None
  from getOrCreateNode_Inr(5) [OF g None]
  show ?thesis using None by (simp add: stored_user_def numNodes_def zero_NodeInfo_def)
next
  case (Some j)
  from getOrCreateNode_found [OF Some, of env] g have "i = j" "s1 = s" by simp_all
  then show ?thesis using Some by (simp add: stored_user_def)
qed

lemma getOrCreateNode_numNodes:
  assumes g: "getOrCreateNode env n s = Inr (i, s1)"
  shows "numNodes s1 = (if getNode s n = None then Suc (numNodes s) else numNodes s)"
proof (cases "getNode s n")
  case None
  from getOrCreateNode_Inr(5) [OF g None] show ?thesis using None by (simp add: numNodes_def)
next
  case (Some j)
  from getOrCreateNode_found [OF Some, of env] g have "s1 = s" by simp
  then show ?thesis using Some by simp
qed

text \<open>
  Claim C6. When \<^verbatim>\<open>updateUser\<close> returns (the node is in the table, or the table has
  room), the node's record holds the payload and \<^verbatim>\<open>has_user\<close> is set. When the payload
  equals the stored user record byte for byte, \<^verbatim>\<open>updateGUIforNode\<close> is left as it was and
  nothing is sent to the power state machine or to the observers; when it differs,
  \<^verbatim>\<open>updateGUIforNode\<close> points to the record, and the power event and the forced
  notification are raised, in this order.
\<close>

theorem updateUser_change_detection:
  assumes "getNode s n \<noteq> None \<or> numNodes s < MAX_NUM_NODES env"
  shows "\<exists>i s'. updateUser env n p s = Inr s' \<and> getNode s' n = Some i
     \<and> user (node_db (devicestate s') ! i) = p \<and> has_user (node_db (devicestate s') ! i)
     \<and> (if stored_user s n = p
         then updateGUIforNode s' = updateGUIforNode s \<and> effects s' = effects s
         else updateGUIforNode s' = Some i
            \<and> effects s' = effects s @ [PowerFSM_trigger_EVENT_NODEDB_UPDATED, NotifyObservers True])"
proof -
  from getOrCreateNode_total [OF assms] obtain i s1
    where g: "getOrCreateNode env n s = Inr (i, s1)" by blast
  define s2 where "s2 = modify_node i (\<lambda>info. info\<lparr>user := p, has_user := True\<rparr>) s1"
  define s3 where "s3 = add_effect (NotifyObservers True)
                  (add_effect PowerFSM_trigger_EVENT_NODEDB_UPDATED (s2\<lparr>updateGUIforNode := Some i\<rparr>))"
  have i: "i < numNodes s1" by (rule getOrCreateNode_Inr(2) [OF g])
  have found2: "getNode s2 n = Some i"
    unfolding s2_def using getOrCreateNode_Inr(1) [OF g] by (simp add: modify_node_keys)
  have node2: "node_db (devicestate s2) ! i = (node_db (devicestate s1) ! i)\<lparr>user := p, has_user := True\<rparr>"
    unfolding s2_def using i by (simp add: modify_node_simps)
  have eff2: "effects s2 = effects s" "updateGUIforNode s2 = updateGUIforNode s"
    unfolding s2_def using getOrCreateNode_Inr(6,7) [OF g] by (simp_all add: modify_node_simps)
  have ds3: "devicestate s3 = devicestate s2" "getNode s3 n = getNode s2 n"
    unfolding s3_def by (simp_all add: add_effect_simps gui_update_simps)
  have eff3: "effects s3 = effects s @ [PowerFSM_trigger_EVENT_NODEDB_UPDATED, NotifyObservers True]"
      "updateGUIforNode s3 = Some i"
    unfolding s3_def using eff2 by (simp_all add: add_effect_simps)
  have run: "updateUser env n p s = Inr (if stored_user s n \<noteq> p then s3 else s2)"
    unfolding updateUser_def s2_def s3_def Let_def
    using g getOrCreateNode_stored_user [OF g] by simp
  show ?thesis
  proof (cases "stored_user s n = p")
    case True
    with run have "updateUser env n p s = Inr s2" by simp
    with True found2 node2 eff2 show ?thesis by simp
  next
    case False
    with run have "updateUser env n p s = Inr s3" by simp
    with False found2 node2 ds3 eff3 show ?thesis by simp
  qed
qed

text \<open>
  Claim C10. For a decoded packet with a data payload that is addressed neither to
  broadcast nor to the local node, \<^verbatim>\<open>updateFrom\<close> returns when the sender is in the table
  or the table has room. The sender's record then exists (the table grows by one when it
  was absent), it holds the packet's \<^verbatim>\<open>rx_snr\<close>, and for a non-zero \<^verbatim>\<open>rx_time\<close> it has
  \<^verbatim>\<open>has_position\<close> set and \<^verbatim>\<open>position.time = rx_time\<close>; no observer is notified, no
  power event is raised and \<^verbatim>\<open>updateGUIforNode\<close> is left as it was, also when the record
  is new.
\<close>

theorem updateFrom_data_for_others_is_silent:
  assumes data: "payload mp = MeshPacket_decoded (SubPacket_data d)"
    and nb: "mp_to mp \<noteq> NODENUM_BROADCAST env"
    and nl: "mp_to mp \<noteq> getNodeNum s"
    and room: "getNode s (mp_from mp) \<noteq> None \<or> numNodes s < MAX_NUM_NODES env"
  shows "\<exists>i s'. updateFrom env mp s = Inr s' \<and> getNode s' (mp_from mp) = Some i
     \<and> numNodes s' = (if getNode s (mp_from mp) = None then Suc (numNodes s) else numNodes s)
     \<and> snr (node_db (devicestate s') ! i) = rx_snr mp
     \<and> (rx_time mp \<noteq> 0 \<longrightarrow> has_position (node_db (devicestate s') ! i)
           \<and> time (position (node_db (devicestate s') ! i)) = rx_time mp)
     \<and> effects s' = effects s \<and> updateGUIforNode s' = updateGUIforNode s"
proof -
  from getOrCreateNode_total [OF room] obtain i s1
    where g: "getOrCreateNode env (mp_from mp) s = Inr (i, s1)" by blast
  define s2 where "s2 = (if rx_time mp \<noteq> 0
       then modify_node i (\<lambda>info. info\<lparr>has_position := True,
                                position := (position info)\<lparr>time := rx_time mp\<rparr>\<rparr>) s1
       else s1)"
  define s3 where "s3 = modify_node i (\<lambda>info. info\<lparr>snr := rx_snr mp\<rparr>) s2"
  have i1: "i < numNodes s1" by (rule getOrCreateNode_Inr(2) [OF g])
  have n2: "numNodes s2 = numNodes s1"
    unfolding s2_def by (simp add: modify_node_simps)
  have found2: "getNode s2 (mp_from mp) = Some i"
    unfolding s2_def using getOrCreateNode_Inr(1) [OF g] by (simp add: modify_node_keys)
  have found3: "getNode s3 (mp_from mp) = Some i"
    unfolding s3_def using found2 by (simp add: modify_node_keys)
  have pos2: "rx_time mp \<noteq> 0 \<Longrightarrow> has_position (node_db (devicestate s2) ! i)
           \<and> time (position (node_db (devicestate s2) ! i)) = rx_time mp"
    unfolding s2_def using i1 by (simp add: modify_node_simps)
  have node3: "node_db (devicestate s3) ! i = (node_db (devicestate s2) ! i)\<lparr>snr := rx_snr mp\<rparr>"
    unfolding s3_def using i1 n2 by (simp add: modify_node_simps)
  have eff3: "effects s3 = effects s" "updateGUIforNode s3 = updateGUIforNode s"
    unfolding s3_def s2_def using getOrCreateNode_Inr(6,7) [OF g] by (simp_all add: modify_node_simps)
  have n3: "numNodes s3 = numNodes s1"
    unfolding s3_def using n2 by (simp add: modify_node_simps)
  have "my_node (devicestate s3) = my_node (devicestate s)"
    unfolding s3_def s2_def using getOrCreateNode_my_node [OF g] by (simp add: modify_node_simps)
  then have local: "getNodeNum s3 = getNodeNum s" by (simp add: getNodeNum_def)
  have "updateFrom env mp s =
      (if mp_to mp = NODENUM_BROADCAST env \<or> mp_to mp = getNodeNum s3
       then Inr (add_effect (CallPlugins mp) s3) else Inr s3)"
    unfolding updateFrom_def s2_def s3_def Let_def using data g by simp
  with nb nl local have run: "updateFrom env mp s = Inr s3" by simp
  from run found3 n3 getOrCreateNode_numNodes [OF g] node3 pos2 eff3
  show ?thesis by simp
qed


lemma stored_user_found:
  "getNode s n = Some i \<Longrightarrow> stored_user s n = user (node_db (devicestate s) ! i)"
  by (simp add: stored_user_def)

text \<open>The scenario of the specification: the same payload for \<open>0x42\<close> twice. The first
  call raises the two events, the second raises none.\<close>

theorem updateUser_change_detection_witness:
  "\<exists>s1 s2. updateUser example_platform 0x42 userA boot_NodeDB = Inr s1
     \<and> effects s1 = [PowerFSM_trigger_EVENT_NODEDB_UPDATED, NotifyObservers True]
     \<and> updateUser example_platform 0x42 userA s1 = Inr s2
     \<and> effects s2 = effects s1 \<and> updateGUIforNode s2 = updateGUIforNode s1"
proof -
  have room: "getNode boot_NodeDB 0x42 \<noteq> None
      \<or> numNodes boot_NodeDB < MAX_NUM_NODES example_platform"
    by (simp add: numNodes_def boot_simps example_platform_simps)
  have differs: "stored_user boot_NodeDB 0x42 \<noteq> userA"
    by (simp add: stored_user_def getNode_def boot_simps zero_User_def userA_def)
  from updateUser_change_detection [OF room, of userA] differs obtain i s1
    where first: "updateUser example_platform 0x42 userA boot_NodeDB = Inr s1"
      and found: "getNode s1 0x42 = Some i"
      and stored: "user (node_db (devicestate s1) ! i) = userA"
      and eff: "effects s1 = [PowerFSM_trigger_EVENT_NODEDB_UPDATED, NotifyObservers True]"
    by (auto simp: boot_simps)
  have room1: "getNode s1 0x42 \<noteq> None \<or> numNodes s1 < MAX_NUM_NODES example_platform"
    using found by simp
  have same: "stored_user s1 0x42 = userA"
    using stored_user_found [OF found] stored by simp
  from updateUser_change_detection [OF room1, of userA] same obtain s2
    where "updateUser example_platform 0x42 userA s1 = Inr s2"
      and "effects s2 = effects s1" and "updateGUIforNode s2 = updateGUIforNode s1"
    by auto
  with first eff show ?thesis by blast
qed

text \<open>Such a packet from the unknown node \<open>0x42\<close>, on the empty table.\<close>

theorem updateFrom_data_for_others_is_silent_witness:
  "\<exists>i s'. updateFrom example_platform data_packet_for_other boot_NodeDB = Inr s'
     \<and> getNode s' 0x42 = Some i \<and> numNodes s' = 1
     \<and> snr (node_db (devicestate s') ! i) = 7
     \<and> has_position (node_db (devicestate s') ! i)
     \<and> time (position (node_db (devicestate s') ! i)) = 1000
     \<and> effects s' = [] \<and> updateGUIforNode s' = None"
proof -
  have data: "payload data_packet_for_other = MeshPacket_decoded (SubPacket_data [1, 2, 3])"
    by (simp add: data_packet_for_other_def)
  have nb: "mp_to data_packet_for_other \<noteq> NODENUM_BROADCAST example_platform"
    by (simp add: data_packet_for_other_def example_platform_simps)
  have nl: "mp_to data_packet_for_other \<noteq> getNodeNum boot_NodeDB"
    by (simp add: data_packet_for_other_def getNodeNum_def boot_simps)
  have room: "getNode boot_NodeDB (mp_from data_packet_for_other) \<noteq> None
      \<or> numNodes boot_NodeDB < MAX_NUM_NODES example_platform"
    by (simp add: numNodes_def boot_simps example_platform_simps)
  have absent: "getNode boot_NodeDB (mp_from data_packet_for_other) = None"
    by (simp add: getNode_def boot_simps)
  have fields: "mp_from data_packet_for_other = 0x42" "rx_time data_packet_for_other = 1000"
      "rx_snr data_packet_for_other = 7"
    by (simp_all add: data_packet_for_other_def)
  from updateFrom_data_for_others_is_silent [OF data nb nl room] absent
  show ?thesis
    by (simp add: fields numNodes_def boot_simps)
qed

section \<open>Properties of the node number\<close>


lemma pickLoop_result:
  assumes "pickLoop env nodes mac k r = Some y"
  shows "\<not> in_use nodes mac (fst y) \<and> k \<le> snd y
     \<and> (fst y = r \<or> (\<exists>j. fst y = random_between env j NUM_RESERVED (NODENUM_BROADCAST env)))"
proof (rule pickLoop.raw_induct [where P = "\<lambda>env nodes mac k r y.
     \<not> in_use nodes mac (fst y) \<and> k \<le> snd y
     \<and> (fst y = r \<or> (\<exists>j. fst y = random_between env j NUM_RESERVED (NODENUM_BROADCAST env)))",
     OF _ assms])
  fix f env nodes mac k r and y :: "NodeNum \<times> nat"
  assume IH: "\<And>env nodes mac k r y. f env nodes mac k r = Some y \<Longrightarrow>
     \<not> in_use nodes mac (fst y) \<and> k \<le> snd y
     \<and> (fst y = r \<or> (\<exists>j. fst y = random_between env j NUM_RESERVED (NODENUM_BROADCAST env)))"
    and eq: "(if in_use nodes mac r
       then f env nodes mac (Suc k) (random_between env k NUM_RESERVED (NODENUM_BROADCAST env))
       else Some (r, k)) = Some y"
  show "\<not> in_use nodes mac (fst y) \<and> k \<le> snd y
     \<and> (fst y = r \<or> (\<exists>j. fst y = random_between env j NUM_RESERVED (NODENUM_BROADCAST env)))"
  proof (cases "in_use nodes mac r")
    case True
    with eq have "f env nodes mac (Suc k)
        (random_between env k NUM_RESERVED (NODENUM_BROADCAST env)) = Some y" by simp
    from IH [OF this] show ?thesis by auto
  next
    case False
    with eq show ?thesis by auto
  qed
qed

lemma pickLoop_free:
  "\<not> in_use nodes mac r \<Longrightarrow> pickLoop env nodes mac k r = Some (r, k)"
  by (subst pickLoop.simps) simp

lemma random_between_range:
  assumes "lo < hi"
  shows "lo \<le> random_between env j lo hi \<and> random_between env j lo hi < hi"
proof -
  let ?x = "unat lo + random_raw env j mod (unat hi - unat lo)"
  from assms have lt: "unat lo < unat hi" by (simp add: word_less_nat_alt)
  then have "random_raw env j mod (unat hi - unat lo) < unat hi - unat lo" by simp
  with lt have x: "unat lo \<le> ?x" "?x < unat hi" by arith+
  from x have "?x \<le> unat hi" by simp
  then have "unat (of_nat ?x :: u32) = ?x" by (rule le_unat_uoi)
  with x show ?thesis
    by (simp add: random_between_def word_le_nat_alt word_less_nat_alt)
qed


lemma pickNewNodeNum_Some:
  assumes "pickNewNodeNum env s = Some s'"
  shows "\<exists>r r2 k. pickLoop env (node_db (devicestate s)) (macaddr (owner (devicestate s)))
            (rand_pos s) r2 = Some (r, k)
          \<and> (r2 = NUM_RESERVED \<or> (r2 \<noteq> NODENUM_BROADCAST env \<and> \<not> r2 < NUM_RESERVED))
          \<and> s' = set_myNodeInfo (\<lambda>m. m\<lparr>my_node_num := r\<rparr>) (s\<lparr>rand_pos := k\<rparr>)"
proof -
  define r1 where "r1 = (if my_node_num (myNodeInfo s) = 0 then macNodeNum (ourMacAddr s)
                         else my_node_num (myNodeInfo s))"
  define r2 where "r2 = (if r1 = NODENUM_BROADCAST env \<or> r1 < NUM_RESERVED then NUM_RESERVED
                         else r1)"
  have unfold: "pickNewNodeNum env s =
      (case pickLoop env (node_db (devicestate s)) (macaddr (owner (devicestate s)))
                (rand_pos s) r2 of
           None \<Rightarrow> None
         | Some (r, k) \<Rightarrow>
             Some (set_myNodeInfo (\<lambda>m. m\<lparr>my_node_num := r\<rparr>) (s\<lparr>rand_pos := k\<rparr>)))"
    unfolding pickNewNodeNum_def r1_def r2_def Let_def ..
  with assms obtain r k where
      "pickLoop env (node_db (devicestate s)) (macaddr (owner (devicestate s)))
            (rand_pos s) r2 = Some (r, k)"
      "s' = set_myNodeInfo (\<lambda>m. m\<lparr>my_node_num := r\<rparr>) (s\<lparr>rand_pos := k\<rparr>)"
    by (cases "pickLoop env (node_db (devicestate s)) (macaddr (owner (devicestate s)))
            (rand_pos s) r2") auto
  moreover have "r2 = NUM_RESERVED \<or> (r2 \<noteq> NODENUM_BROADCAST env \<and> \<not> r2 < NUM_RESERVED)"
    by (simp add: r2_def)
  ultimately show ?thesis by blast
qed

lemma my_node_num_set [simp]:
  "my_node_num (myNodeInfo (set_myNodeInfo (\<lambda>m. m\<lparr>my_node_num := r\<rparr>) s)) = r"
  by (simp add: myNodeInfo_def set_myNodeInfo_def)

lemma pickLoop_step:
  "in_use nodes mac r \<Longrightarrow> pickLoop env nodes mac k r =
     pickLoop env nodes mac (Suc k) (random_between env k NUM_RESERVED (NODENUM_BROADCAST env))"
  by (subst pickLoop.simps) simp

lemma pickLoop_first_free_draw:
  assumes "in_use nodes mac r"
    and "\<forall>i<j. in_use nodes mac (random_between env (k + i) NUM_RESERVED (NODENUM_BROADCAST env))"
    and "\<not> in_use nodes mac (random_between env (k + j) NUM_RESERVED (NODENUM_BROADCAST env))"
  shows "pickLoop env nodes mac k r =
     Some (random_between env (k + j) NUM_RESERVED (NODENUM_BROADCAST env), Suc (k + j))"
  using assms
proof (induction j arbitrary: k r)
  case 0
  then show ?case by (simp add: pickLoop_step pickLoop_free)
next
  case (Suc j)
  from Suc.prems(2) have first: "in_use nodes mac
      (random_between env k NUM_RESERVED (NODENUM_BROADCAST env))"
    by (metis add.right_neutral zero_less_Suc)
  have rest: "\<forall>i<j. in_use nodes mac
      (random_between env (Suc k + i) NUM_RESERVED (NODENUM_BROADCAST env))"
  proof (intro allI impI)
    fix i assume "i < j"
    then have "Suc i < Suc j" by simp
    with Suc.prems(2) have "in_use nodes mac
      (random_between env (k + Suc i) NUM_RESERVED (NODENUM_BROADCAST env))" by blast
    then show "in_use nodes mac
      (random_between env (Suc k + i) NUM_RESERVED (NODENUM_BROADCAST env))" by simp
  qed
  from Suc.prems(3) have last: "\<not> in_use nodes mac
      (random_between env (Suc k + j) NUM_RESERVED (NODENUM_BROADCAST env))" by simp
  from Suc.IH [OF first rest last] Suc.prems(1) show ?case
    by (simp add: pickLoop_step)
qed

lemma pickLoop_all_taken_aux:
  assumes "pickLoop env nodes mac k r = Some y"
  shows "\<not> (in_use nodes mac r
     \<and> (\<forall>i. in_use nodes mac (random_between env (k + i) NUM_RESERVED (NODENUM_BROADCAST env))))"
proof (rule pickLoop.raw_induct [where P = "\<lambda>env nodes mac k r y.
     \<not> (in_use nodes mac r
     \<and> (\<forall>i. in_use nodes mac (random_between env (k + i) NUM_RESERVED (NODENUM_BROADCAST env))))",
     OF _ assms])
  fix f env nodes mac k r and y :: "NodeNum \<times> nat"
  assume IH: "\<And>env nodes mac k r y. f env nodes mac k r = Some y \<Longrightarrow>
       \<not> (in_use nodes mac r
     \<and> (\<forall>i. in_use nodes mac (random_between env (k + i) NUM_RESERVED (NODENUM_BROADCAST env))))"
    and eq: "(if in_use nodes mac r
       then f env nodes mac (Suc k) (random_between env k NUM_RESERVED (NODENUM_BROADCAST env))
       else Some (r, k)) = Some y"
  show "\<not> (in_use nodes mac r
     \<and> (\<forall>i. in_use nodes mac (random_between env (k + i) NUM_RESERVED (NODENUM_BROADCAST env))))"
  proof
    assume a: "in_use nodes mac r
     \<and> (\<forall>i. in_use nodes mac (random_between env (k + i) NUM_RESERVED (NODENUM_BROADCAST env)))"
    with eq have "f env nodes mac (Suc k)
        (random_between env k NUM_RESERVED (NODENUM_BROADCAST env)) = Some y" by simp
    from IH [OF this] have "\<not> (in_use nodes mac (random_between env k NUM_RESERVED (NODENUM_BROADCAST env))
       \<and> (\<forall>i. in_use nodes mac (random_between env (Suc k + i) NUM_RESERVED (NODENUM_BROADCAST env))))" .
    moreover from a have "in_use nodes mac (random_between env k NUM_RESERVED (NODENUM_BROADCAST env))"
      by (metis add.right_neutral)
    moreover have "\<forall>i. in_use nodes mac (random_between env (Suc k + i) NUM_RESERVED (NODENUM_BROADCAST env))"
    proof
      fix i
      from a have "in_use nodes mac (random_between env (k + Suc i) NUM_RESERVED (NODENUM_BROADCAST env))"
        by blast
      then show "in_use nodes mac (random_between env (Suc k + i) NUM_RESERVED (NODENUM_BROADCAST env))"
        by simp
    qed
    ultimately show False by blast
  qed
qed

lemma pickLoop_all_taken:
  assumes "in_use nodes mac r"
    and "\<forall>i. in_use nodes mac (random_between env (k + i) NUM_RESERVED (NODENUM_BROADCAST env))"
  shows "pickLoop env nodes mac k r = None"
proof (cases "pickLoop env nodes mac k r")
  case None
  then show ?thesis .
next
  case (Some y)
  from pickLoop_all_taken_aux [OF Some] assms show ?thesis by blast
qed

lemma pickNewNodeNum_unfold:
  "pickNewNodeNum env s =
     (case pickLoop env (node_db (devicestate s)) (macaddr (owner (devicestate s)))
             (rand_pos s) (firstCandidate env s) of
        None \<Rightarrow> None
      | Some (r, k) \<Rightarrow> Some (set_myNodeInfo (\<lambda>m. m\<lparr>my_node_num := r\<rparr>) (s\<lparr>rand_pos := k\<rparr>)))"
  unfolding pickNewNodeNum_def firstCandidate_def Let_def ..

text \<open>
  Claim C5, as amended. With a broadcast number above the reserved range, whenever
  \<^verbatim>\<open>pickNewNodeNum\<close> returns, the node number it stores is not the broadcast number, is
  not below \<^verbatim>\<open>NUM_RESERVED\<close>, and is not in the table under another hardware address.
  When the first candidate is not in the table under another hardware address, the call
  returns with that candidate and draws no random number. When the candidate and the
  draws before the draw \<open>j\<close> are in the table under another address and the draw \<open>j\<close> is
  not, the call returns with the draw \<open>j\<close>, after \<open>j + 1\<close> draws. The source has no bound
  on the retries: when the candidate and every draw are in the table under another
  address, the call does not return.
\<close>

theorem pickNewNodeNum_first_free:
  "(NUM_RESERVED < NODENUM_BROADCAST env \<longrightarrow>
      (\<forall>s'. pickNewNodeNum env s = Some s' \<longrightarrow>
            my_node_num (myNodeInfo s') \<noteq> NODENUM_BROADCAST env
          \<and> \<not> my_node_num (myNodeInfo s') < NUM_RESERVED
          \<and> \<not> taken s (my_node_num (myNodeInfo s'))))
   \<and> (\<not> taken s (firstCandidate env s) \<longrightarrow>
        pickNewNodeNum env s =
          Some (set_myNodeInfo (\<lambda>m. m\<lparr>my_node_num := firstCandidate env s\<rparr>) s))
   \<and> (\<forall>j. taken s (firstCandidate env s) \<and> (\<forall>i<j. taken s (draw env s i))
            \<and> \<not> taken s (draw env s j) \<longrightarrow>
        pickNewNodeNum env s =
          Some (set_myNodeInfo (\<lambda>m. m\<lparr>my_node_num := draw env s j\<rparr>)
                 (s\<lparr>rand_pos := rand_pos s + j + 1\<rparr>)))
   \<and> (taken s (firstCandidate env s) \<and> (\<forall>i. taken s (draw env s i)) \<longrightarrow>
        pickNewNodeNum env s = None)"
proof (intro conjI allI impI)
  fix s' assume bc: "NUM_RESERVED < NODENUM_BROADCAST env"
    and run: "pickNewNodeNum env s = Some s'"
  from pickNewNodeNum_Some [OF run] obtain r r2 k
    where loop: "pickLoop env (node_db (devicestate s)) (macaddr (owner (devicestate s)))
            (rand_pos s) r2 = Some (r, k)"
      and start: "r2 = NUM_RESERVED \<or> (r2 \<noteq> NODENUM_BROADCAST env \<and> \<not> r2 < NUM_RESERVED)"
      and s': "s' = set_myNodeInfo (\<lambda>m. m\<lparr>my_node_num := r\<rparr>) (s\<lparr>rand_pos := k\<rparr>)"
    by blast
  from start bc have ok2: "r2 \<noteq> NODENUM_BROADCAST env \<and> \<not> r2 < NUM_RESERVED" by auto
  from pickLoop_result [OF loop]
  have free: "\<not> in_use (node_db (devicestate s)) (macaddr (owner (devicestate s))) r"
    and origin: "r = r2 \<or> (\<exists>j. r = random_between env j NUM_RESERVED (NODENUM_BROADCAST env))"
    by simp_all
  from origin have ok: "r \<noteq> NODENUM_BROADCAST env \<and> \<not> r < NUM_RESERVED"
  proof
    assume "r = r2" with ok2 show ?thesis by simp
  next
    assume "\<exists>j. r = random_between env j NUM_RESERVED (NODENUM_BROADCAST env)"
    then obtain j where "r = random_between env j NUM_RESERVED (NODENUM_BROADCAST env)" ..
    with random_between_range [OF bc, of env j] show ?thesis by auto
  qed
  from ok show "my_node_num (myNodeInfo s') \<noteq> NODENUM_BROADCAST env" by (simp add: s')
  from ok show "\<not> my_node_num (myNodeInfo s') < NUM_RESERVED" by (simp add: s')
  from free show "\<not> taken s (my_node_num (myNodeInfo s'))" by (simp add: s' taken_def)
next
  assume "\<not> taken s (firstCandidate env s)"
  then have "pickLoop env (node_db (devicestate s)) (macaddr (owner (devicestate s)))
             (rand_pos s) (firstCandidate env s) = Some (firstCandidate env s, rand_pos s)"
    unfolding taken_def by (rule pickLoop_free)
  then show "pickNewNodeNum env s =
          Some (set_myNodeInfo (\<lambda>m. m\<lparr>my_node_num := firstCandidate env s\<rparr>) s)"
    by (simp add: pickNewNodeNum_unfold)
next
  fix j
  assume a: "taken s (firstCandidate env s) \<and> (\<forall>i<j. taken s (draw env s i))
            \<and> \<not> taken s (draw env s j)"
  then have "pickLoop env (node_db (devicestate s)) (macaddr (owner (devicestate s)))
             (rand_pos s) (firstCandidate env s) =
      Some (random_between env (rand_pos s + j) NUM_RESERVED (NODENUM_BROADCAST env),
            Suc (rand_pos s + j))"
    unfolding taken_def draw_def by (intro pickLoop_first_free_draw) simp_all
  then show "pickNewNodeNum env s =
          Some (set_myNodeInfo (\<lambda>m. m\<lparr>my_node_num := draw env s j\<rparr>)
                 (s\<lparr>rand_pos := rand_pos s + j + 1\<rparr>))"
    by (simp add: pickNewNodeNum_unfold draw_def)
next
  assume a: "taken s (firstCandidate env s) \<and> (\<forall>i. taken s (draw env s i))"
  then have "pickLoop env (node_db (devicestate s)) (macaddr (owner (devicestate s)))
             (rand_pos s) (firstCandidate env s) = None"
    unfolding taken_def draw_def by (intro pickLoop_all_taken) simp_all
  then show "pickNewNodeNum env s = None"
    by (simp add: pickNewNodeNum_unfold)
qed

lemma stuck_loop:
  assumes "pickLoop env nodes mac k r = Some y"
  shows "\<not> (env = stuck_platform \<and> nodes = node_db (devicestate stuck_NodeDB)
            \<and> mac = [0, 0, 0, 0, 0, 0] \<and> r = 4)"
proof (rule pickLoop.raw_induct [where P = "\<lambda>env nodes mac k r y.
     \<not> (env = stuck_platform \<and> nodes = node_db (devicestate stuck_NodeDB)
            \<and> mac = [0, 0, 0, 0, 0, 0] \<and> r = 4)", OF _ assms])
  fix f env nodes mac k r and y :: "NodeNum \<times> nat"
  assume IH: "\<And>env nodes mac k r y. f env nodes mac k r = Some y \<Longrightarrow>
       \<not> (env = stuck_platform \<and> nodes = node_db (devicestate stuck_NodeDB)
            \<and> mac = [0, 0, 0, 0, 0, 0] \<and> r = 4)"
    and eq: "(if in_use nodes mac r
       then f env nodes mac (Suc k) (random_between env k NUM_RESERVED (NODENUM_BROADCAST env))
       else Some (r, k)) = Some y"
  show "\<not> (env = stuck_platform \<and> nodes = node_db (devicestate stuck_NodeDB)
            \<and> mac = [0, 0, 0, 0, 0, 0] \<and> r = 4)"
  proof
    assume a: "env = stuck_platform \<and> nodes = node_db (devicestate stuck_NodeDB)
            \<and> mac = [0, 0, 0, 0, 0, 0] \<and> r = 4"
    then have used: "in_use nodes mac r"
      by (simp add: in_use_def stuck_NodeDB_def table_of_def zero_User_def)
    from a have draw: "random_between env k NUM_RESERVED (NODENUM_BROADCAST env) = 4"
      by (simp add: random_between_def stuck_platform_def example_platform_def NUM_RESERVED_def)
    from eq used draw have "f env nodes mac (Suc k) 4 = Some y" by simp
    from IH [OF this] a show False by simp
  qed
qed

text \<open>
  Claim C5 as stated fails: with the number 4 in the table under another hardware address
  and a random generator that keeps drawing 4, the loop never ends, whatever the bound.
\<close>

theorem pickNewNodeNum_counterexample:
  "NUM_RESERVED < NODENUM_BROADCAST stuck_platform
   \<and> pickNewNodeNum stuck_platform stuck_NodeDB = None"
proof -
  have start: "my_node_num (myNodeInfo stuck_NodeDB) = 0"
      "macNodeNum (ourMacAddr stuck_NodeDB) = 0"
      "macaddr (owner (devicestate stuck_NodeDB)) = [0, 0, 0, 0, 0, 0]"
    by (simp_all add: stuck_NodeDB_def table_of_def myNodeInfo_def boot_NodeDB_def
        zero_DeviceState_def zero_MyNodeInfo_def zero_User_def macNodeNum_def)
  have "pickLoop stuck_platform (node_db (devicestate stuck_NodeDB)) ([0, 0, 0, 0, 0, 0])
          (rand_pos stuck_NodeDB) 4 = None"
    using stuck_loop [of stuck_platform "node_db (devicestate stuck_NodeDB)" "[0, 0, 0, 0, 0, 0]"
        "rand_pos stuck_NodeDB" 4]
    by (cases "pickLoop stuck_platform (node_db (devicestate stuck_NodeDB)) ([0, 0, 0, 0, 0, 0])
          (rand_pos stuck_NodeDB) 4") auto
  then have "pickNewNodeNum stuck_platform stuck_NodeDB = None"
    by (simp add: pickNewNodeNum_def Let_def start NUM_RESERVED_def
        stuck_platform_def example_platform_def)
  moreover have "NUM_RESERVED < NODENUM_BROADCAST stuck_platform"
    by (simp add: NUM_RESERVED_def stuck_platform_def example_platform_def)
  ultimately show ?thesis by simp
qed

text \<open>The table that holds 4 under another address, with the raw draws 0, 1, 2, ...: the
  candidate 4 and the first draw 4 collide, the second draw 5 is free, and the call returns
  with 5 after two draws. With the generator that keeps drawing 4: when the local node
  number 7 is already set, the call returns with 7 and draws nothing; when it is not, the
  candidate 4 and every draw collide, and the call does not return.\<close>

theorem pickNewNodeNum_first_free_witness:
  "NUM_RESERVED < NODENUM_BROADCAST example_platform
   \<and> taken stuck_NodeDB (firstCandidate example_platform stuck_NodeDB)
   \<and> taken stuck_NodeDB (draw example_platform stuck_NodeDB 0)
   \<and> \<not> taken stuck_NodeDB (draw example_platform stuck_NodeDB 1)
   \<and> pickNewNodeNum example_platform stuck_NodeDB =
       Some (set_myNodeInfo (\<lambda>m. m\<lparr>my_node_num := 5\<rparr>) (stuck_NodeDB\<lparr>rand_pos := 2\<rparr>))
   \<and> (5 :: NodeNum) \<noteq> NODENUM_BROADCAST example_platform
   \<and> \<not> (5 :: NodeNum) < NUM_RESERVED
   \<and> \<not> taken free_start_NodeDB (firstCandidate stuck_platform free_start_NodeDB)
   \<and> pickNewNodeNum stuck_platform free_start_NodeDB =
       Some (set_myNodeInfo (\<lambda>m. m\<lparr>my_node_num := 7\<rparr>) free_start_NodeDB)
   \<and> taken stuck_NodeDB (firstCandidate stuck_platform stuck_NodeDB)
   \<and> taken stuck_NodeDB (draw stuck_platform stuck_NodeDB 3)
   \<and> pickNewNodeNum stuck_platform stuck_NodeDB = None"
proof -
  have bc: "NUM_RESERVED < NODENUM_BROADCAST example_platform"
    by (simp add: NUM_RESERVED_def example_platform_def)
  have pos: "rand_pos stuck_NodeDB = 0"
    by (simp add: stuck_NodeDB_def table_of_def boot_NodeDB_def)
  have c: "firstCandidate example_platform stuck_NodeDB = 4"
      "firstCandidate stuck_platform stuck_NodeDB = 4"
    by (simp_all add: firstCandidate_def Let_def stuck_NodeDB_def table_of_def myNodeInfo_def
        boot_NodeDB_def zero_DeviceState_def zero_MyNodeInfo_def macNodeNum_def NUM_RESERVED_def
        stuck_platform_def example_platform_def)
  have d: "draw example_platform stuck_NodeDB 0 = 4" "draw example_platform stuck_NodeDB 1 = 5"
    by (simp_all add: draw_def pos random_between_def example_platform_def NUM_RESERVED_def)
  have ds: "\<And>i. draw stuck_platform stuck_NodeDB i = 4"
    by (simp add: draw_def random_between_def stuck_platform_def example_platform_def
        NUM_RESERVED_def)
  have t: "taken stuck_NodeDB 4" "\<not> taken stuck_NodeDB 5"
    by (simp_all add: taken_def in_use_def stuck_NodeDB_def table_of_def zero_DeviceState_def
        zero_User_def)
  have c7: "firstCandidate stuck_platform free_start_NodeDB = 7"
    by (simp add: firstCandidate_def Let_def free_start_NodeDB_def set_myNodeInfo_def
        myNodeInfo_def NUM_RESERVED_def stuck_platform_def example_platform_def)
  have t7: "\<not> taken free_start_NodeDB 7"
    by (simp add: taken_def in_use_def free_start_NodeDB_def set_myNodeInfo_def stuck_NodeDB_def
        table_of_def)
  have before: "\<forall>i<1. taken stuck_NodeDB (draw example_platform stuck_NodeDB i)"
    using d(1) t(1) by simp
  from pickNewNodeNum_first_free [where env = example_platform and s = stuck_NodeDB]
  have "taken stuck_NodeDB (firstCandidate example_platform stuck_NodeDB)
          \<and> (\<forall>i<1. taken stuck_NodeDB (draw example_platform stuck_NodeDB i))
          \<and> \<not> taken stuck_NodeDB (draw example_platform stuck_NodeDB 1) \<longrightarrow>
        pickNewNodeNum example_platform stuck_NodeDB =
          Some (set_myNodeInfo (\<lambda>m. m\<lparr>my_node_num := draw example_platform stuck_NodeDB 1\<rparr>)
                 (stuck_NodeDB\<lparr>rand_pos := rand_pos stuck_NodeDB + 1 + 1\<rparr>))" by blast
  with before c d t pos have first: "pickNewNodeNum example_platform stuck_NodeDB =
       Some (set_myNodeInfo (\<lambda>m. m\<lparr>my_node_num := 5\<rparr>) (stuck_NodeDB\<lparr>rand_pos := 2\<rparr>))"
    by (simp add: numeral_2_eq_2)
  from pickNewNodeNum_first_free [where env = example_platform and s = stuck_NodeDB] bc first
  have rng: "(5 :: NodeNum) \<noteq> NODENUM_BROADCAST example_platform \<and> \<not> (5 :: NodeNum) < NUM_RESERVED"
    by simp
  from pickNewNodeNum_first_free [where env = stuck_platform and s = free_start_NodeDB] c7 t7
  have second: "pickNewNodeNum stuck_platform free_start_NodeDB =
       Some (set_myNodeInfo (\<lambda>m. m\<lparr>my_node_num := 7\<rparr>) free_start_NodeDB)" by simp
  from pickNewNodeNum_first_free [where env = stuck_platform and s = stuck_NodeDB] c(2) ds t(1)
  have third: "pickNewNodeNum stuck_platform stuck_NodeDB = None" by simp
  from bc c d ds t c7 t7 first rng second third show ?thesis by simp
qed

section \<open>Properties of the channel configuration\<close>

lemma channelSettings_activePSK_update:
  "channelSettings (s\<lparr>activePSK := k\<rparr>) = channelSettings s"
  by (simp add: channelSettings_def)

lemma applyChannelSettings_activePSK:
  "activePSK (applyChannelSettings s) = activePSK (expandPSK (convertDefaultPSK (resolveChannelName s)))"
  by (simp add: applyChannelSettings_def add_effect_def developmentMode_def setKey_def
      set_preferences_def set_radioConfig_def)

lemma psk_resolveChannelName:
  "psk (channelSettings (resolveChannelName s)) = psk (channelSettings s)"
  by (simp add: resolveChannelName_def Let_def channelSettings_def set_channelSettings_def
      set_radioConfig_def)

lemma psk_convertDefaultPSK:
  "psk (channelSettings (convertDefaultPSK s)) =
     (if psk (channelSettings s) = defaultpsk then [1] else psk (channelSettings s))"
  by (auto simp: convertDefaultPSK_def channelSettings_def set_channelSettings_def
      set_radioConfig_def)

lemma expandPSK_activePSK:
  "activePSK (expandPSK s) =
     (let k = psk (channelSettings s)
      in if length k = 1
         then (if k ! 0 = 0 then [] else butlast defaultpsk @ [last defaultpsk + (k ! 0 - 1)])
         else k)"
  by (simp add: expandPSK_def Let_def defaultpsk_def channelSettings_activePSK_update)

text \<open>
  Claim C4, at the inputs where the source leaves the form of its own comment
  (\<^verbatim>\<open>#name-X\<close>, with \<^verbatim>\<open>X\<close> a number from 0 to 9 for a key given by its index). For
  the index 208 the sum \<^verbatim>\<open>'0' + 208\<close> is the NUL character in a \<^verbatim>\<open>char\<close>, and the
  string ends after the dash; for the index 10 the suffix is a colon; for the index 9 it
  is the digit.
\<close>

theorem getChannelName_index_suffix_not_a_digit:
  "map_option (getChannelName \<circ> snd) (resetRadioConfig example_platform (with_psk [208]))
     = Some ''#Medium-''
   \<and> map_option (getChannelName \<circ> snd) (resetRadioConfig example_platform (with_psk [10]))
     = Some ''#Medium-:''
   \<and> map_option (getChannelName \<circ> snd) (resetRadioConfig example_platform (with_psk [9]))
     = Some ''#Medium-9''"
  by code_simp

section \<open>Properties of the persistence\<close>

lemma resetRadioConfig_blank:
  "resetRadioConfig env (s\<lparr>devicestate := blank_DeviceState\<rparr>) =
     Some (False, applyChannelSettings (setDefaultPreferences
        (s\<lparr>devicestate := blank_DeviceState, radioGeneration := radioGeneration s + 1\<rparr>)))"
  by (subst resetRadioConfig.simps)
    (simp add: Let_def blank_DeviceState_def zero_DeviceState_def zero_RadioConfig_def
      zero_UserPreferences_def zero_ChannelSettings_def)

lemma applyChannelSettings_blank:
  assumes "devicestate t = blank_DeviceState"
  shows "devicestate (applyChannelSettings (setDefaultPreferences t)) =
     blank_DeviceState\<lparr>radio := \<lparr>has_preferences = True, preferences = zero_UserPreferences,
        has_channel_settings = True,
        channel_settings = \<lparr>tx_power = 0,
          modem_config = ChannelSettings_ModemConfig_Bw125Cr48Sf4096, psk = [1],
          name = [], bandwidth = 0\<rparr>\<rparr>\<rparr>"
    and "ourMacAddr (applyChannelSettings (setDefaultPreferences t)) = ourMacAddr t"
    and "rand_pos (applyChannelSettings (setDefaultPreferences t)) = rand_pos t"
  using assms
  by (simp_all add: applyChannelSettings_def setDefaultPreferences_def add_effect_def
      developmentMode_def setKey_def expandPSK_def convertDefaultPSK_def resolveChannelName_def
      set_channelSettings_def set_radioConfig_def set_preferences_def channelSettings_def
      Let_def defaultpsk_def blank_DeviceState_def zero_DeviceState_def zero_RadioConfig_def
      zero_ChannelSettings_def)

lemma pickNewNodeNum_empty_table:
  assumes "node_db (devicestate s) = []" and "my_node_num (my_node (devicestate s)) = 0"
  shows "pickNewNodeNum env s = Some (set_myNodeInfo (\<lambda>m. m\<lparr>my_node_num :=
      (let r1 = macNodeNum (ourMacAddr s)
       in if r1 = NODENUM_BROADCAST env \<or> r1 < NUM_RESERVED then NUM_RESERVED else r1)\<rparr>) s)"
  using assms
  by (simp add: pickNewNodeNum_def Let_def myNodeInfo_def pickLoop_free in_use_def)


lemma installDefaultDeviceState_closed_form:
  "\<exists>s'. installDefaultDeviceState env s = Some s'
     \<and> devicestate s' = default_DeviceState env (region (preferences (radio (devicestate s))))
                           (node_region (my_node (devicestate s)))"
proof -
  define t where "t = s\<lparr>devicestate := blank_DeviceState, radioGeneration := radioGeneration s + 1\<rparr>"
  define s2 where "s2 = applyChannelSettings (setDefaultPreferences t)"
  have t: "devicestate t = blank_DeviceState" by (simp add: t_def)
  note s2 = applyChannelSettings_blank [OF t, folded s2_def]
  have reset: "resetRadioConfig env (s\<lparr>devicestate := blank_DeviceState\<rparr>) = Some (False, s2)"
    unfolding s2_def t_def by (rule resetRadioConfig_blank)
  define s5 where "s5 = set_owner (\<lambda>u. u\<lparr>user_id := ''!'' @ fmt_02x (getMacAddr env ! 0)
         @ fmt_02x (getMacAddr env ! 1) @ fmt_02x (getMacAddr env ! 2)
         @ fmt_02x (getMacAddr env ! 3) @ fmt_02x (getMacAddr env ! 4)
         @ fmt_02x (getMacAddr env ! 5), macaddr := getMacAddr env\<rparr>)
       ((set_myNodeInfo (\<lambda>m. m\<lparr>has_gps := False,
                         message_timeout_msec := FLOOD_EXPIRE_TIME env,
                         current_packet_id := generatePacketId env\<rparr>) s2)
         \<lparr>ourMacAddr := getMacAddr env\<rparr>)"
  have s5: "node_db (devicestate s5) = []" "my_node_num (my_node (devicestate s5)) = 0"
      "ourMacAddr s5 = getMacAddr env"
    by (simp_all add: s5_def set_owner_def set_myNodeInfo_def s2(1) blank_DeviceState_def
        zero_DeviceState_def zero_MyNodeInfo_def)
  define s6 where "s6 = set_myNodeInfo (\<lambda>m. m\<lparr>my_node_num := initial_node_num env\<rparr>) s5"
  have pick: "pickNewNodeNum env s5 = Some s6"
    using pickNewNodeNum_empty_table [OF s5(1,2), of env]
    by (simp add: s6_def initial_node_num_def s5(3))
  have ds6: "devicestate s6 = default_DeviceState env RegionCode_Unset []
       \<lparr>owner := (owner (default_DeviceState env RegionCode_Unset []))
          \<lparr>long_name := [], short_name := []\<rparr>\<rparr>"
    by (simp add: s6_def s5_def set_owner_def set_myNodeInfo_def s2(1) blank_DeviceState_def
        zero_DeviceState_def zero_MyNodeInfo_def zero_User_def zero_UserPreferences_def
        default_DeviceState_def)
  have run1: "installDefaultDeviceState env s =
      (case pickNewNodeNum env s5 of
         None \<Rightarrow> None
       | Some s6 \<Rightarrow>
          Some (let s7 = set_owner (\<lambda>u. u\<lparr>long_name :=
                                   ''Unknown '' @ fmt_02x (ourMacAddr s6 ! 4) @ fmt_02x (ourMacAddr s6 ! 5),
                                 short_name := ''?'' @ fmt_02X
                                   (ucast (my_node_num (my_node (devicestate s6)) AND 0xff))\<rparr>) s6;
                s8 = (if region (preferences (radio (devicestate s))) \<noteq> RegionCode_Unset
                      then set_preferences (\<lambda>p. p\<lparr>region := region (preferences (radio (devicestate s)))\<rparr>) s7
                      else s7);
                s9 = (if node_region (my_node (devicestate s)) \<noteq> []
                      then set_myNodeInfo (\<lambda>m. m\<lparr>node_region := node_region (my_node (devicestate s))\<rparr>) s8
                      else s8)
            in s9))"
    by (subst installDefaultDeviceState.simps)
      (simp add: Let_def reset s5_def cong: option.case_cong)
  have run: "installDefaultDeviceState env s =
          Some (let s7 = set_owner (\<lambda>u. u\<lparr>long_name :=
                                   ''Unknown '' @ fmt_02x (ourMacAddr s6 ! 4) @ fmt_02x (ourMacAddr s6 ! 5),
                                 short_name := ''?'' @ fmt_02X
                                   (ucast (my_node_num (my_node (devicestate s6)) AND 0xff))\<rparr>) s6;
                s8 = (if region (preferences (radio (devicestate s))) \<noteq> RegionCode_Unset
                      then set_preferences (\<lambda>p. p\<lparr>region := region (preferences (radio (devicestate s)))\<rparr>) s7
                      else s7);
                s9 = (if node_region (my_node (devicestate s)) \<noteq> []
                      then set_myNodeInfo (\<lambda>m. m\<lparr>node_region := node_region (my_node (devicestate s))\<rparr>) s8
                      else s8)
            in s9)"
    unfolding run1 pick by simp
  have num6: "my_node_num (my_node (devicestate s6)) = initial_node_num env"
    by (simp add: ds6 default_DeviceState_def)
  have mac6: "ourMacAddr s6 = getMacAddr env"
    by (simp add: s6_def set_myNodeInfo_def s5(3))
  show ?thesis
    unfolding run Let_def num6 mac6
    by (simp add: set_owner_def set_preferences_def set_radioConfig_def set_myNodeInfo_def ds6
        default_DeviceState_def)
qed


lemma with_region_default:
  "with_region rc rs (default_DeviceState env rc' rs') = default_DeviceState env rc rs"
  by (simp add: with_region_def default_DeviceState_def)

text \<open>
  Claim C2. When the saved file exists and \<^verbatim>\<open>pb_decode\<close> fails on it, or the decoded
  version is below \<^verbatim>\<open>DEVICESTATE_MIN_VER\<close>, \<^verbatim>\<open>loadFromDisk\<close> returns, and the record it
  leaves is the one \<^verbatim>\<open>installDefaultDeviceState\<close> leaves from any state \<open>t\<close>, but for the
  region code and the region string, which are those decoded from the file. Written out,
  it is \<open>default_DeviceState\<close>: nothing else of the file is kept.
\<close>

theorem loadFromDisk_falls_back_to_defaults:
  assumes stored: "files s preffile = Some blob"
    and dec: "pb_decode env blob = (ok, d)"
    and bad: "\<not> ok \<or> version d < DEVICESTATE_MIN_VER"
  shows "\<exists>s' t'. loadFromDisk env s = Some s'
       \<and> installDefaultDeviceState env t = Some t'
       \<and> devicestate s' = with_region (region (preferences (radio d)))
                             (node_region (my_node d)) (devicestate t')
       \<and> devicestate s' = default_DeviceState env (region (preferences (radio d)))
                             (node_region (my_node d))"
proof -
  have "loadFromDisk env s = installDefaultDeviceState env (s\<lparr>devicestate := d\<rparr>)"
    using stored dec bad by (auto simp: loadFromDisk_def Let_def)
  moreover from installDefaultDeviceState_closed_form [of env "s\<lparr>devicestate := d\<rparr>"]
  obtain s' where "installDefaultDeviceState env (s\<lparr>devicestate := d\<rparr>) = Some s'"
    and "devicestate s' = default_DeviceState env (region (preferences (radio d)))
                             (node_region (my_node d))" by auto
  moreover from installDefaultDeviceState_closed_form [of env t]
  obtain t' where "installDefaultDeviceState env t = Some t'"
    and "devicestate t' = default_DeviceState env (region (preferences (radio (devicestate t))))
                             (node_region (my_node (devicestate t)))" by auto
  ultimately show ?thesis by (simp add: with_region_default)
qed

text \<open>A file of version 10: its peer, key and channel name are dropped, its region code
  is kept.\<close>

theorem loadFromDisk_falls_back_to_defaults_witness:
  "\<exists>s'. loadFromDisk old_file_platform saved_NodeDB = Some s'
     \<and> node_db (devicestate s') = []
     \<and> psk (channel_settings (radio (devicestate s'))) = [1]
     \<and> name (channel_settings (radio (devicestate s'))) = []
     \<and> version (devicestate s') = 0
     \<and> region (preferences (radio (devicestate s'))) = RegionCode_TW"
proof -
  define d where "d = zero_DeviceState\<lparr>version := 10, node_db := [node_seen_at 5],
        radio := zero_RadioConfig\<lparr>preferences := zero_UserPreferences\<lparr>region := RegionCode_TW\<rparr>,
          channel_settings := zero_ChannelSettings\<lparr>psk := [7, 8], name := ''Old''\<rparr>\<rparr>\<rparr>"
  have stored: "files saved_NodeDB preffile = Some [7, 7]"
    by (simp add: saved_NodeDB_def)
  have dec: "pb_decode old_file_platform [7, 7] = (True, d)"
    by (simp add: old_file_platform_def d_def)
  have bad: "\<not> True \<or> version d < DEVICESTATE_MIN_VER"
    by (simp add: d_def DEVICESTATE_MIN_VER_def DEVICESTATE_CUR_VER_def)
  from loadFromDisk_falls_back_to_defaults [OF stored dec bad, of boot_NodeDB]
  obtain s' where run: "loadFromDisk old_file_platform saved_NodeDB = Some s'"
    and cf: "devicestate s' = default_DeviceState old_file_platform
        (region (preferences (radio d))) (node_region (my_node d))" by blast
  have "region (preferences (radio d)) = RegionCode_TW"
    by (simp add: d_def zero_RadioConfig_def)
  with run cf show ?thesis by (simp add: default_DeviceState_def)
qed

lemma preftmp_neq_preffile: "preftmp \<noteq> preffile"
  by (simp add: preftmp_def preffile_def)

text \<open>
  Claim C1, as amended. With \<^verbatim>\<open>no_save\<close> set, \<^verbatim>\<open>saveToDisk\<close> changes nothing. With
  \<^verbatim>\<open>no_save\<close> clear, when the temporary file cannot be opened for writing it changes
  nothing either (the version is not stamped); when it can be opened, the version is
  stamped into the record and the record is encoded into the temporary file; after a
  successful encoding the saved file holds the encoded bytes and the temporary file is
  gone, and after a failed encoding the saved file is as it was and the temporary file
  holds what the encoder wrote.
\<close>

theorem saveToDisk_two_step_replace:
  "(no_save (devicestate s) \<longrightarrow> saveToDisk env s = s)
   \<and> (\<not> no_save (devicestate s) \<and> \<not> open_write_ok env \<longrightarrow> saveToDisk env s = s)
   \<and> (\<not> no_save (devicestate s) \<and> open_write_ok env \<longrightarrow>
        devicestate (saveToDisk env s) = (devicestate s)\<lparr>version := DEVICESTATE_CUR_VER\<rparr>
        \<and> (fst (pb_encode env ((devicestate s)\<lparr>version := DEVICESTATE_CUR_VER\<rparr>)) \<longrightarrow>
             files (saveToDisk env s) = (files s)(preftmp := None,
               preffile \<mapsto> snd (pb_encode env ((devicestate s)\<lparr>version := DEVICESTATE_CUR_VER\<rparr>))))
        \<and> (\<not> fst (pb_encode env ((devicestate s)\<lparr>version := DEVICESTATE_CUR_VER\<rparr>)) \<longrightarrow>
             files (saveToDisk env s) preffile = files s preffile
             \<and> files (saveToDisk env s) = (files s)(preftmp \<mapsto>
                 snd (pb_encode env ((devicestate s)\<lparr>version := DEVICESTATE_CUR_VER\<rparr>)))))"
proof (intro conjI impI)
  show "no_save (devicestate s) \<Longrightarrow> saveToDisk env s = s"
    by (simp add: saveToDisk_def)
  show "\<not> no_save (devicestate s) \<and> \<not> open_write_ok env \<Longrightarrow> saveToDisk env s = s"
    by (simp add: saveToDisk_def)
next
  assume a: "\<not> no_save (devicestate s) \<and> open_write_ok env"
  then show "devicestate (saveToDisk env s) = (devicestate s)\<lparr>version := DEVICESTATE_CUR_VER\<rparr>"
    by (simp add: saveToDisk_def Let_def FS_rename_def FS_remove_def split: prod.splits)
  {
    assume ok: "fst (pb_encode env ((devicestate s)\<lparr>version := DEVICESTATE_CUR_VER\<rparr>))"
    with a show "files (saveToDisk env s) = (files s)(preftmp := None,
               preffile \<mapsto> snd (pb_encode env ((devicestate s)\<lparr>version := DEVICESTATE_CUR_VER\<rparr>)))"
      using preftmp_neq_preffile
      by (auto simp: saveToDisk_def Let_def FS_rename_def FS_remove_def fun_upd_twist
          split: prod.splits)
  }
  {
    assume bad: "\<not> fst (pb_encode env ((devicestate s)\<lparr>version := DEVICESTATE_CUR_VER\<rparr>))"
    with a show f: "files (saveToDisk env s) = (files s)(preftmp \<mapsto>
                 snd (pb_encode env ((devicestate s)\<lparr>version := DEVICESTATE_CUR_VER\<rparr>)))"
      by (auto simp: saveToDisk_def Let_def split: prod.splits)
    show "files (saveToDisk env s) preffile = files s preffile"
      unfolding f using preftmp_neq_preffile by simp
  }
qed

text \<open>A save over a saved file: with an encoder that succeeds, with one that fails, and
  with \<^verbatim>\<open>no_save\<close> set.\<close>

theorem saveToDisk_two_step_replace_witness:
  "\<not> no_save (devicestate saved_NodeDB) \<and> open_write_ok example_platform
   \<and> version (devicestate (saveToDisk example_platform saved_NodeDB)) = 11
   \<and> files (saveToDisk example_platform saved_NodeDB) preffile = Some [11]
   \<and> files (saveToDisk example_platform saved_NodeDB) preftmp = None
   \<and> files (saveToDisk failing_encoder_platform saved_NodeDB) preffile = Some [7, 7]
   \<and> files (saveToDisk failing_encoder_platform saved_NodeDB) preftmp = Some [9]
   \<and> no_save (devicestate no_save_NodeDB)
   \<and> saveToDisk example_platform no_save_NodeDB = no_save_NodeDB"
proof -
  have a: "\<not> no_save (devicestate saved_NodeDB)"
    by (simp add: saved_NodeDB_def boot_NodeDB_def zero_DeviceState_def)
  have b: "open_write_ok example_platform" "open_write_ok failing_encoder_platform"
    by (simp_all add: example_platform_def failing_encoder_platform_def)
  have c: "no_save (devicestate no_save_NodeDB)"
    by (simp add: no_save_NodeDB_def)
  have enc: "pb_encode example_platform ((devicestate saved_NodeDB)\<lparr>version := DEVICESTATE_CUR_VER\<rparr>)
        = (True, [11])"
      "pb_encode failing_encoder_platform ((devicestate saved_NodeDB)\<lparr>version := DEVICESTATE_CUR_VER\<rparr>)
        = (False, [9])"
    by (simp_all add: example_platform_def failing_encoder_platform_def DEVICESTATE_CUR_VER_def)
  have old: "files saved_NodeDB preffile = Some [7, 7]"
    by (simp add: saved_NodeDB_def)
  from saveToDisk_two_step_replace [of saved_NodeDB example_platform]
    saveToDisk_two_step_replace [of saved_NodeDB failing_encoder_platform]
    saveToDisk_two_step_replace [of no_save_NodeDB example_platform]
    a b c enc old preftmp_neq_preffile
  show ?thesis by (simp add: DEVICESTATE_CUR_VER_def)
qed

text \<open>
  Claim C1 as stated fails: with \<^verbatim>\<open>no_save\<close> clear and a temporary file that cannot be
  opened, the version is not stamped and no temporary file is written.
\<close>

theorem saveToDisk_counterexample:
  "\<not> no_save (devicestate saved_NodeDB)
   \<and> version (devicestate (saveToDisk readonly_platform saved_NodeDB)) \<noteq> DEVICESTATE_CUR_VER
   \<and> files (saveToDisk readonly_platform saved_NodeDB) preftmp = None"
  by (simp add: saveToDisk_def readonly_platform_def example_platform_def saved_NodeDB_def
      boot_NodeDB_def zero_DeviceState_def DEVICESTATE_CUR_VER_def preftmp_def preffile_def)

section \<open>The channel name, where it has the form of the comment\<close>

text \<open>For a channel name of at most 28 characters, the string is \<^verbatim>\<open>#name-X\<close> with the
  letter of the live key for a stored key that is not one byte, and with the character
  \<^verbatim>\<open>'0' + index\<close> for a stored key of one byte other than 208.\<close>

lemma snprintf_fits:
  "length out \<le> 31 \<Longrightarrow> CHR 0x00 \<notin> set out \<Longrightarrow> snprintf 32 out = out"
  by (auto simp: snprintf_def takeWhile_eq_all_conv)

lemma letter_not_NUL: "char_of (of_char CHR ''A'' + n mod 26 :: nat) \<noteq> CHR 0x00"
proof -
  have "(65 + n mod 26) mod 256 = 65 + n mod 26"
    by (rule mod_less) (simp add: less_trans [OF mod_less_divisor, of 26 _ 191] add.commute)
  then show ?thesis by (simp add: char_of_eq_iff take_bit_eq_mod)
qed

lemma getChannelName_letter:
  assumes "length (psk (channelSettings s)) \<noteq> 1"
    and "length (channelName s) \<le> 28" and "CHR 0x00 \<notin> set (channelName s)"
  shows "getChannelName s = ''#'' @ channelName s @ ''-''
     @ [char_of (of_char CHR ''A'' + unat (fold (\<lambda>b code. code XOR b) (activePSK s) (0::u8)) mod 26 :: nat)]"
  using assms letter_not_NUL [of "unat (fold (\<lambda>b code. code XOR b) (activePSK s) (0::u8))"]
  by (simp add: getChannelName_def Let_def snprintf_fits)


lemma index_char_NUL_iff:
  "char_of (of_char CHR ''0'' + unat (v::u8) :: nat) = CHR 0x00 \<longleftrightarrow> v = 208"
proof -
  have lt: "unat v < 256" using unsigned_less [of v, where 'a = nat] by simp
  have "(48 + unat v) mod 256 = 0 \<longleftrightarrow> unat v = 208"
    using lt by presburger
  moreover have "unat v = 208 \<longleftrightarrow> v = 208"
    using word_unat_eq_iff [of v 208] by simp
  ultimately show ?thesis by (simp add: char_of_eq_iff take_bit_eq_mod)
qed

lemma getChannelName_index:
  assumes "psk (channelSettings s) = [v]"
    and "length (channelName s) \<le> 28" and "CHR 0x00 \<notin> set (channelName s)"
  shows "getChannelName s =
     (if v = 208 then ''#'' @ channelName s @ ''-''
      else ''#'' @ channelName s @ ''-'' @ [char_of (of_char CHR ''0'' + unat v :: nat)])"
proof (cases "v = 208")
  case True
  have "char_of (of_char CHR ''0'' + unat v :: nat) = CHR 0x00"
    using True index_char_NUL_iff [of v] by simp
  then have "getChannelName s = takeWhile (\<lambda>c. c \<noteq> CHR 0x00)
      (take 31 (''#'' @ channelName s @ ''-'' @ [CHR 0x00]))"
    using assms(1) by (simp add: getChannelName_def Let_def snprintf_def)
  also have "\<dots> = takeWhile (\<lambda>c. c \<noteq> CHR 0x00) ((''#'' @ channelName s) @ [CHR ''-'', CHR 0x00])"
    using assms(2) by simp
  also have "\<dots> = (''#'' @ channelName s) @ takeWhile (\<lambda>c. c \<noteq> CHR 0x00) [CHR ''-'', CHR 0x00]"
    by (rule takeWhile_append2) (use assms(3) in auto)
  also have "\<dots> = ''#'' @ channelName s @ ''-''"
    by simp
  finally show ?thesis using True by simp
next
  case False
  then have "char_of (of_char CHR ''0'' + unat v :: nat) \<noteq> CHR 0x00"
    using index_char_NUL_iff [of v] by simp
  with assms False show ?thesis
    by (simp add: getChannelName_def Let_def snprintf_fits)
qed

section \<open>The live key that \<^verbatim>\<open>resetRadioConfig\<close> leaves\<close>

text \<open>Without a factory reset, an empty stored key is first replaced by the index 1, and a
  stored key equal to the default key is rewritten as the index 1 before the expansion.\<close>

lemma psk_applyChannelSettings:
  "psk (channelSettings (applyChannelSettings s)) =
     (if psk (channelSettings s) = defaultpsk then [1] else psk (channelSettings s))"
proof -
  have "psk (channelSettings (applyChannelSettings s)) =
      psk (channelSettings (convertDefaultPSK (resolveChannelName s)))"
    by (simp add: applyChannelSettings_def add_effect_def developmentMode_def setKey_def
        expandPSK_def Let_def set_preferences_def set_radioConfig_def channelSettings_def)
  then show ?thesis by (simp add: psk_convertDefaultPSK psk_resolveChannelName)
qed

lemma applyChannelSettings_index_one:
  assumes "psk (channelSettings s) = [1]"
  shows "activePSK (applyChannelSettings s) = defaultpsk"
    and "psk (channelSettings (applyChannelSettings s)) = [1]"
  using assms
  by (simp_all add: applyChannelSettings_activePSK expandPSK_activePSK psk_convertDefaultPSK
      psk_resolveChannelName psk_applyChannelSettings defaultpsk_def)

lemma resetRadioConfig_no_reset_key:
  assumes "\<not> factory_reset (preferences (radio (devicestate s)))"
  shows "\<exists>s'. resetRadioConfig env s = Some (False, s')
     \<and> activePSK s' =
         (let k = psk (channelSettings s)
          in if k = [] then defaultpsk
             else if length k = 1
             then (if k ! 0 = 0 then [] else butlast defaultpsk @ [last defaultpsk + (k ! 0 - 1)])
             else k)
     \<and> (psk (channelSettings s) = [] \<longrightarrow> psk (channelSettings s') = [1])"
proof (cases "psk (channelSettings s) = []")
  case True
  then have run: "resetRadioConfig env s = Some (False, applyChannelSettings
      (setDefaultPreferences (s\<lparr>radioGeneration := radioGeneration s + 1\<rparr>)))"
    using assms by (simp add: resetRadioConfig.simps [of env s] Let_def channelSettings_def)
  have "psk (channelSettings (setDefaultPreferences (s\<lparr>radioGeneration := radioGeneration s + 1\<rparr>))) = [1]"
    by (simp add: setDefaultPreferences_def channelSettings_def set_channelSettings_def
        set_radioConfig_def)
  from applyChannelSettings_index_one [OF this] run True show ?thesis by simp
next
  case False
  then have run: "resetRadioConfig env s = Some (False, applyChannelSettings
      (s\<lparr>radioGeneration := radioGeneration s + 1\<rparr>))"
    using assms by (simp add: resetRadioConfig.simps [of env s] Let_def channelSettings_def)
  have k: "psk (channelSettings (s\<lparr>radioGeneration := radioGeneration s + 1\<rparr>)) = psk (channelSettings s)"
    by (simp add: channelSettings_def)
  have "activePSK (applyChannelSettings (s\<lparr>radioGeneration := radioGeneration s + 1\<rparr>)) =
         (let k = psk (channelSettings s)
          in if length k = 1
             then (if k ! 0 = 0 then [] else butlast defaultpsk @ [last defaultpsk + (k ! 0 - 1)])
             else k)"
    by (simp add: applyChannelSettings_activePSK expandPSK_activePSK psk_convertDefaultPSK
        psk_resolveChannelName k Let_def) (simp add: defaultpsk_def)
  with run False show ?thesis by (simp add: Let_def)
qed

text \<open>With a factory reset, \<^verbatim>\<open>installDefaultDeviceState\<close> has replaced the stored key by the
  index 1 before the expansion.\<close>

lemma resetRadioConfig_factory_reset:
  assumes "factory_reset (preferences (radio (devicestate s)))"
  shows "\<exists>s'. resetRadioConfig env s = Some (True, s')
     \<and> activePSK s' = defaultpsk \<and> psk (channelSettings s') = [1]"
proof -
  from installDefaultDeviceState_closed_form
    [of env "s\<lparr>radioGeneration := radioGeneration s + 1\<rparr>"]
  obtain s2 where inst: "installDefaultDeviceState env
        (s\<lparr>radioGeneration := radioGeneration s + 1\<rparr>) = Some s2"
    and ds: "devicestate s2 = default_DeviceState env
        (region (preferences (radio (devicestate (s\<lparr>radioGeneration := radioGeneration s + 1\<rparr>)))))
        (node_region (my_node (devicestate (s\<lparr>radioGeneration := radioGeneration s + 1\<rparr>))))"
    by blast
  from ds have k: "psk (channelSettings s2) = [1]"
    by (simp add: channelSettings_def default_DeviceState_def)
  have "resetRadioConfig env s = Some (True, applyChannelSettings s2)"
    using assms inst by (subst resetRadioConfig.simps) (simp add: Let_def)
  with applyChannelSettings_index_one [OF k] show ?thesis by simp
qed

text \<open>
  Claim C3, as amended. A call of \<^verbatim>\<open>resetRadioConfig\<close> returns. Without a factory reset,
  for a stored key of one byte \<open>v\<close> the live key is empty for \<open>v = 0\<close>; otherwise it is
  the default key with its last byte increased by \<open>v - 1\<close> modulo 256 and has 16 bytes,
  and for \<open>v = 1\<close> it is the default key itself. A stored key of any other size that is
  not empty is the live key as it is. An empty stored key is replaced by the index 1, and
  the live key is the default key. With a factory reset the stored key is not used: it is
  replaced by the index 1, and the live key is the default key.
\<close>

theorem resetRadioConfig_live_key:
  "(\<not> factory_reset (preferences (radio (devicestate s))) \<longrightarrow>
      (\<exists>s'. resetRadioConfig env s = Some (False, s')
         \<and> (\<forall>v. psk (channelSettings s) = [v] \<longrightarrow>
               activePSK s' =
                 (if v = 0 then [] else butlast defaultpsk @ [last defaultpsk + (v - 1)])
               \<and> length (activePSK s') = (if v = 0 then 0 else 16)
               \<and> (v = 1 \<longrightarrow> activePSK s' = defaultpsk))
         \<and> (length (psk (channelSettings s)) \<noteq> 1 \<and> psk (channelSettings s) \<noteq> [] \<longrightarrow>
               activePSK s' = psk (channelSettings s))
         \<and> (psk (channelSettings s) = [] \<longrightarrow>
               activePSK s' = defaultpsk \<and> psk (channelSettings s') = [1])))
   \<and> (factory_reset (preferences (radio (devicestate s))) \<longrightarrow>
        (\<exists>s'. resetRadioConfig env s = Some (True, s')
           \<and> activePSK s' = defaultpsk \<and> psk (channelSettings s') = [1]))"
proof (intro conjI impI)
  assume nr: "\<not> factory_reset (preferences (radio (devicestate s)))"
  from resetRadioConfig_no_reset_key [OF nr, of env] obtain s'
    where run: "resetRadioConfig env s = Some (False, s')"
      and key: "activePSK s' =
         (let k = psk (channelSettings s)
          in if k = [] then defaultpsk
             else if length k = 1
             then (if k ! 0 = 0 then [] else butlast defaultpsk @ [last defaultpsk + (k ! 0 - 1)])
             else k)"
      and stored: "psk (channelSettings s) = [] \<longrightarrow> psk (channelSettings s') = [1]"
    by blast
  have one: "\<forall>v. psk (channelSettings s) = [v] \<longrightarrow>
               activePSK s' =
                 (if v = 0 then [] else butlast defaultpsk @ [last defaultpsk + (v - 1)])
               \<and> length (activePSK s') = (if v = 0 then 0 else 16)
               \<and> (v = 1 \<longrightarrow> activePSK s' = defaultpsk)"
    using key by (simp add: Let_def defaultpsk_def)
  have other: "length (psk (channelSettings s)) \<noteq> 1 \<and> psk (channelSettings s) \<noteq> [] \<longrightarrow>
               activePSK s' = psk (channelSettings s)"
    using key by (simp add: Let_def)
  have empty: "psk (channelSettings s) = [] \<longrightarrow>
               activePSK s' = defaultpsk \<and> psk (channelSettings s') = [1]"
    using key stored by (simp add: Let_def)
  from run one other empty
  show "\<exists>s'. resetRadioConfig env s = Some (False, s')
         \<and> (\<forall>v. psk (channelSettings s) = [v] \<longrightarrow>
               activePSK s' =
                 (if v = 0 then [] else butlast defaultpsk @ [last defaultpsk + (v - 1)])
               \<and> length (activePSK s') = (if v = 0 then 0 else 16)
               \<and> (v = 1 \<longrightarrow> activePSK s' = defaultpsk))
         \<and> (length (psk (channelSettings s)) \<noteq> 1 \<and> psk (channelSettings s) \<noteq> [] \<longrightarrow>
               activePSK s' = psk (channelSettings s))
         \<and> (psk (channelSettings s) = [] \<longrightarrow>
               activePSK s' = defaultpsk \<and> psk (channelSettings s') = [1])"
    by blast
next
  assume "factory_reset (preferences (radio (devicestate s)))"
  then show "\<exists>s'. resetRadioConfig env s = Some (True, s')
           \<and> activePSK s' = defaultpsk \<and> psk (channelSettings s') = [1]"
    by (rule resetRadioConfig_factory_reset)
qed

text \<open>
  Claim C3 as stated fails on the call: a stored key of size 0 is not the live key, which
  is the default key of 16 bytes; and with the preference \<^verbatim>\<open>factory_reset\<close> set, the
  stored index 5 gives the default key itself, not the default key with its last byte
  increased by 4.
\<close>

theorem resetRadioConfig_live_key_counterexample:
  "psk (channelSettings (with_psk [])) = []
   \<and> map_option (activePSK \<circ> snd) (resetRadioConfig example_platform (with_psk []))
       = Some defaultpsk
   \<and> psk (channelSettings (factory_reset_with_psk [5])) = [5]
   \<and> map_option (activePSK \<circ> snd) (resetRadioConfig example_platform (factory_reset_with_psk [5]))
       = Some defaultpsk"
  by code_simp

text \<open>The indices 5 and 0, a stored key of two bytes and an empty stored key, without a
  factory reset; the index 5 with a factory reset.\<close>

theorem resetRadioConfig_live_key_witness:
  "\<not> factory_reset (preferences (radio (devicestate (with_psk [5]))))
   \<and> (\<exists>s'. resetRadioConfig example_platform (with_psk [5]) = Some (False, s')
          \<and> activePSK s' = [0xd4, 0xf1, 0xbb, 0x3a, 0x20, 0x29, 0x07, 0x59,
                             0xf0, 0xbc, 0xff, 0xab, 0xcf, 0x4e, 0x69, 0xc3])
   \<and> (\<exists>s'. resetRadioConfig example_platform (with_psk [0]) = Some (False, s')
          \<and> activePSK s' = [])
   \<and> (\<exists>s'. resetRadioConfig example_platform (with_psk [7, 8]) = Some (False, s')
          \<and> activePSK s' = [7, 8])
   \<and> (\<exists>s'. resetRadioConfig example_platform (with_psk []) = Some (False, s')
          \<and> activePSK s' = defaultpsk \<and> psk (channelSettings s') = [1])
   \<and> factory_reset (preferences (radio (devicestate (factory_reset_with_psk [5]))))
   \<and> (\<exists>s'. resetRadioConfig example_platform (factory_reset_with_psk [5]) = Some (True, s')
          \<and> activePSK s' = defaultpsk \<and> psk (channelSettings s') = [1])"
proof -
  have nr: "\<And>k. \<not> factory_reset (preferences (radio (devicestate (with_psk k))))"
    by (simp add: with_psk_def set_channelSettings_def set_radioConfig_def boot_NodeDB_def
        zero_DeviceState_def zero_RadioConfig_def zero_UserPreferences_def)
  have fr: "factory_reset (preferences (radio (devicestate (factory_reset_with_psk [5]))))"
    by (simp add: factory_reset_with_psk_def set_preferences_def set_radioConfig_def)
  have k: "\<And>k. psk (channelSettings (with_psk k)) = k"
    by (simp add: with_psk_def set_channelSettings_def set_radioConfig_def channelSettings_def)
  from resetRadioConfig_live_key [of "with_psk [5]" example_platform] nr k
  have a: "\<exists>s'. resetRadioConfig example_platform (with_psk [5]) = Some (False, s')
          \<and> activePSK s' = [0xd4, 0xf1, 0xbb, 0x3a, 0x20, 0x29, 0x07, 0x59,
                             0xf0, 0xbc, 0xff, 0xab, 0xcf, 0x4e, 0x69, 0xc3]"
    by (auto simp: defaultpsk_def)
  from resetRadioConfig_live_key [of "with_psk [0]" example_platform] nr k
  have z: "\<exists>s'. resetRadioConfig example_platform (with_psk [0]) = Some (False, s')
          \<and> activePSK s' = []"
    by auto
  from resetRadioConfig_live_key [of "with_psk [7, 8]" example_platform] nr k
  have b: "\<exists>s'. resetRadioConfig example_platform (with_psk [7, 8]) = Some (False, s')
          \<and> activePSK s' = [7, 8]"
    by auto
  from resetRadioConfig_live_key [of "with_psk []" example_platform] nr k
  have e: "\<exists>s'. resetRadioConfig example_platform (with_psk []) = Some (False, s')
          \<and> activePSK s' = defaultpsk \<and> psk (channelSettings s') = [1]"
    by auto
  from resetRadioConfig_live_key [of "factory_reset_with_psk [5]" example_platform] fr
  have c: "\<exists>s'. resetRadioConfig example_platform (factory_reset_with_psk [5]) = Some (True, s')
          \<and> activePSK s' = defaultpsk \<and> psk (channelSettings s') = [1]"
    by blast
  from nr a z b e fr c show ?thesis by blast
qed

end
